theory Spec2Isabelle
  imports Complex_Main "HOL-Library.Word"
begin

section \<open>The firmware update job \<open>lib/jobs/emc-diag-update-firmware.js\<close>\<close>

subsection \<open>JavaScript values and primitives\<close>

text \<open>
  Strings are the JavaScript strings whose code units are all below 256, one
  \<^typ>\<open>char\<close> for each code unit. A number is given by its value: a JavaScript number is
  a double, whose value is a rational, an infinity or \<open>NaN\<close>. Objects are the plain
  objects of a parsed JSON text: an association list of own properties, the first
  binding of a key being the property. Arrays are lists.
\<close>

datatype jsnumber = Finite rat | PosInfinity | NegInfinity | NotANumber

datatype jsval =
    JUndefined
  | JNull
  | JBool bool
  | JNum jsnumber
  | JStr string
  | JArr "jsval list"
  | JObj "(string \<times> jsval) list"

text \<open>
  \<open>Number.isSafeInteger\<close> on an integer: JavaScript holds such an integer exactly,
  prints it in plain decimal, and adds and subtracts exactly as long as the result is
  safe as well.
\<close>

definition safe_integer :: "int \<Rightarrow> bool" where
  "safe_integer n \<longleftrightarrow> \<bar>n\<bar> \<le> 2 ^ 53 - 1"

text \<open>
  A mode as the caller gives it (\<open>@param {String/Integer} mode\<close>): a string, or an
  integer \<open>sint w\<close> from \<open>-2^53\<close> to \<open>2^53 - 1\<close>, which is the range of the signed
  54-bit words. JavaScript holds each of these integers exactly and prints it in plain
  decimal.
\<close>

datatype mode = MStr string | MNum "54 word"

text \<open>
  What a property read \<open>mapping[key]\<close> on one of the two mode tables gives, and so what
  \<open>parseSpiMode\<close> and \<open>parseBmcMode\<close> return: a string, \<open>undefined\<close>, or the member of
  \<open>Object.prototype\<close> of that name, which a read on an object literal reaches through
  the prototype chain when the object has no own property of the name.
\<close>

datatype mode_result = ModeString string | ModeUndefined | ModeInherited string

datatype err =
    AssertionError
  | TypeError
  | Error string
  | Rejected string

definition digit_char :: "nat \<Rightarrow> char" where
  "digit_char d = char_of (48 + d)"

fun show_nat :: "nat \<Rightarrow> string" where
  "show_nat n = (if n < 10 then [digit_char n] else show_nat (n div 10) @ [digit_char (n mod 10)])"

declare show_nat.simps [simp del]

text \<open>
  The plain decimal string of an integer, which is \<open>String(n)\<close> for a number whose
  value is a safe integer \<open>n\<close> or \<open>-2^53\<close>.
\<close>

definition show_int :: "int \<Rightarrow> string" where
  "show_int i = (if i < 0 then CHR ''-'' # show_nat (nat (- i)) else show_nat (nat i))"

text \<open>\<open>String(mode)\<close>, which both \<open>parseInt\<close> and a computed property key apply first.\<close>

fun ToString :: "mode \<Rightarrow> string" where
  "ToString (MStr s) = s"
| "ToString (MNum w) = show_int (sint w)"

text \<open>White space that \<open>parseInt\<close> skips: TAB, LF, VT, FF, CR, space, NBSP.\<close>

definition is_ws :: "char \<Rightarrow> bool" where
  "is_ws c = ((of_char c :: nat) \<in> {9, 10, 11, 12, 13, 32, 160})"

definition digit_val :: "char \<Rightarrow> nat option" where
  "digit_val c =
     (let n = (of_char c :: nat) in
      if 48 \<le> n \<and> n \<le> 57 then Some (n - 48)
      else if 97 \<le> n \<and> n \<le> 122 then Some (n - 87)
      else if 65 \<le> n \<and> n \<le> 90 then Some (n - 55)
      else None)"

definition is_radix_digit :: "nat \<Rightarrow> char \<Rightarrow> bool" where
  "is_radix_digit R c = (case digit_val c of None \<Rightarrow> False | Some d \<Rightarrow> d < R)"

definition digits_value :: "nat \<Rightarrow> string \<Rightarrow> nat" where
  "digits_value R Z =
     foldl (\<lambda>acc c. acc * R + (case digit_val c of None \<Rightarrow> 0 | Some d \<Rightarrow> d)) 0 Z"

text \<open>
  \<open>parseInt(string)\<close> with no radix argument (ECMAScript 5, 15.1.2.2): skip leading
  white space, take a sign, take a \<open>0x\<close>/\<open>0X\<close> prefix as radix 16, then the longest run
  of digits of the radix. An empty run is \<open>NaN\<close>, here \<open>None\<close>; the job only tests
  the result with \<open>_.isNaN\<close>. The value is the mathematical one.
\<close>

definition parseInt :: "string \<Rightarrow> int option" where
  "parseInt inputString =
     (let S = dropWhile is_ws inputString;
          sign = (if take 1 S = ''-'' then - 1 else 1 :: int);
          S1 = (if take 1 S = ''+'' \<or> take 1 S = ''-'' then drop 1 S else S);
          hex = (take 2 S1 = ''0x'' \<or> take 2 S1 = ''0X'');
          R = (if hex then 16 else 10);
          S2 = (if hex then drop 2 S1 else S1);
          Z = takeWhile (is_radix_digit R) S2
      in if Z = [] then None else Some (sign * int (digits_value R Z)))"

text \<open>\<open>_.startsWith(string, target)\<close>.\<close>

definition startsWith :: "string \<Rightarrow> string \<Rightarrow> bool" where
  "startsWith s target = (take (length target) s = target)"

text \<open>
  The names \<open>Object.prototype\<close> defines (V8): a read of one of them on an object literal
  that has no such own property gives the inherited member, not \<open>undefined\<close>.
\<close>

definition object_prototype_names :: "string list" where
  "object_prototype_names =
     [''constructor'', ''hasOwnProperty'', ''isPrototypeOf'', ''propertyIsEnumerable'',
      ''toLocaleString'', ''toString'', ''valueOf'', ''__proto__'',
      ''__defineGetter__'', ''__defineSetter__'', ''__lookupGetter__'', ''__lookupSetter__'']"

text \<open>\<open>mapping[key]\<close> on an object literal whose own properties are strings.\<close>

definition mapping_get :: "(string \<times> string) list \<Rightarrow> string \<Rightarrow> mode_result" where
  "mapping_get mapping key =
     (case map_of mapping key of
        Some v \<Rightarrow> ModeString v
      | None \<Rightarrow> if key \<in> set object_prototype_names then ModeInherited key else ModeUndefined)"

subsection \<open>The job object\<close>

text \<open>
  The options and the context a job is built from: the image URL and name and the
  firmware type are strings, the image mode is a string or an integer, \<open>skipReset\<close> is
  any value (\<open>JUndefined\<close> when absent); the context holds the node id and the node
  address, a string.
\<close>

record options =
  opt_imageUrl :: string
  opt_imageName :: string
  opt_imageMode :: mode
  opt_firmwareType :: string
  opt_skipReset :: jsval

record job_context =
  target :: string
  nodeIp :: string

record job =
  ctx :: job_context
  nodeId :: string
  imageUrl :: string
  imageName :: string
  imageMode :: mode
  firmwareType :: string
  skipReset :: jsval
  diagImagePath :: string
  spiModeMapping :: "(string \<times> string) list"
  bmcModeMapping :: "(string \<times> string) list"
  retryCount :: nat
  retryDuration :: nat

text \<open>Truthiness, for \<open>options.skipReset || false\<close> and \<open>!self.skipReset\<close>.\<close>

fun truthy :: "jsval \<Rightarrow> bool" where
  "truthy JUndefined = False"
| "truthy JNull = False"
| "truthy (JBool b) = b"
| "truthy (JNum n) = (n \<noteq> Finite 0 \<and> n \<noteq> NotANumber)"
| "truthy (JStr s) = (s \<noteq> [])"
| "truthy (JArr xs) = True"
| "truthy (JObj kvs) = True"

definition js_or :: "jsval \<Rightarrow> jsval \<Rightarrow> jsval" where
  "js_or a b = (if truthy a then a else b)"

text \<open>
  The constructor. It has no check of its own; the constructor of \<open>Job.Base\<close> it calls
  first is not part of this file and is taken to accept the options and the context.
  An absent \<open>options.skipReset\<close> is \<open>JUndefined\<close>.
\<close>

definition DiagUpdateFirmware :: "options \<Rightarrow> job_context \<Rightarrow> err + job" where
  "DiagUpdateFirmware opts cx = Inr
     \<lparr> ctx = cx,
       nodeId = target cx,
       imageUrl = opt_imageUrl opts,
       imageName = opt_imageName opts,
       imageMode = opt_imageMode opts,
       firmwareType = opt_firmwareType opts,
       skipReset = js_or (opt_skipReset opts) (JBool False),
       diagImagePath = ''/uploads'',
       spiModeMapping =
         [(''fullbios'', ''0''), (''bios'', ''1''), (''uefi'', ''2''),
          (''serdes'', ''3''), (''post'', ''4''), (''me'', ''5'')],
       bmcModeMapping =
         [(''ssp'', ''0x142''), (''bmcapp'', ''0x140''), (''bootblock'', ''0x144''),
          (''adaptivecooling'', ''0x145''), (''fullbmc'', ''0x5f'')],
       retryCount = 6,
       retryDuration = 5000 \<rparr>"

subsection \<open>Mode translation\<close>

definition parseSpiMode :: "job \<Rightarrow> mode \<Rightarrow> mode_result" where
  "parseSpiMode self m =
     (case parseInt (ToString m) of
        None \<Rightarrow> mapping_get (spiModeMapping self) (ToString m)
      | Some _ \<Rightarrow> ModeString (ToString m))"

definition parseBmcMode :: "job \<Rightarrow> mode \<Rightarrow> mode_result" where
  "parseBmcMode self m =
     (if \<not> startsWith (ToString m) ''0x''
      then mapping_get (bmcModeMapping self) (ToString m)
      else ModeString (ToString m))"

subsection \<open>Collaborators, events and promises\<close>

text \<open>
  \<open>_.capitalize\<close> on a string of ASCII code units, where upper and lower case are the
  26 letters. It differs between the two major versions of the library the job can be
  given: version 3 upper-cases the first character and keeps the rest, version 4 also
  lower-cases the rest.
\<close>

datatype lodash_version = Lodash3 | Lodash4

definition is_ascii :: "char \<Rightarrow> bool" where
  "is_ascii c = ((of_char c :: nat) < 128)"

definition toUpperCase :: "char \<Rightarrow> char" where
  "toUpperCase c =
     (let n = (of_char c :: nat) in if 97 \<le> n \<and> n \<le> 122 then char_of (n - 32) else c)"

definition toLowerCase :: "char \<Rightarrow> char" where
  "toLowerCase c =
     (let n = (of_char c :: nat) in if 65 \<le> n \<and> n \<le> 90 then char_of (n + 32) else c)"

fun ascii_capitalize :: "lodash_version \<Rightarrow> string \<Rightarrow> string" where
  "ascii_capitalize v [] = []"
| "ascii_capitalize Lodash3 (c # cs) = toUpperCase c # cs"
| "ascii_capitalize Lodash4 (c # cs) = toUpperCase c # map toLowerCase cs"

text \<open>
  Everything the job calls and does not define: the injected \<open>Assert\<close> service
  (\<open>isIP env ip\<close> is \<open>assert.isIP(ip, 4)\<close> passing), the version of \<open>_\<close>, the
  \<open>DiagTool\<close> constructor and the outcome of each of its methods for given arguments
  (\<open>Inl\<close> a rejection or a throw, \<open>Inr\<close> the value the promise resolves with), and
  two functions of the JavaScript engine that are not computed here:
  \<open>capitalize_other env s\<close> is the result of \<open>_.capitalize(s)\<close> for a string \<open>s\<close> that
  has a code unit outside ASCII, when that result has no code unit above 255 (\<open>None\<close>
  when it has one); \<open>length_key env v\<close> is the property key \<open>String(Number(v) - 2)\<close> for
  a value \<open>v\<close> that is a string, an array, an object, or a number for which the
  subtraction is not exact integer arithmetic (\<open>Inl\<close> when the conversion throws).
\<close>

record env =
  isIP :: "string \<Rightarrow> bool"
  lodash :: lodash_version
  capitalize_other :: "string \<Rightarrow> string option"
  DiagTool :: "string \<Rightarrow> string \<Rightarrow> err + unit"
  retrySyncDiscovery :: "nat \<Rightarrow> nat \<Rightarrow> err + unit"
  getAllDevices :: "err + unit"
  uploadImageFile :: "string \<Rightarrow> string \<Rightarrow> string \<Rightarrow> err + unit"
  updateFirmware :: "string \<Rightarrow> string \<Rightarrow> mode_result \<Rightarrow> string \<Rightarrow> err + jsval"
  bmcReset :: "bool \<Rightarrow> err + unit"
  warmReset :: "bool \<Rightarrow> err + unit"
  length_key :: "jsval \<Rightarrow> err + string"

text \<open>What the job does to the outside, in order: the calls it makes and its log line.\<close>

datatype event =
    NewDiagTool string string
  | RetrySyncDiscovery nat nat
  | GetAllDevices
  | UploadImageFile string string string
  | UpdateFirmware string string mode_result string
  | BmcReset bool
  | WarmReset bool
  | LogError string "err option" jsval string
  | Done "err option"

text \<open>
  A promise, once settled: the events that happened until then, and the rejection
  reason or the value. A callback that throws gives a rejected promise, as in a
  \<open>then\<close> callback or under \<open>Promise.try\<close>.
\<close>

type_synonym 'a promise = "event list \<times> (err + 'a)"

text \<open>\<open>_.capitalize(s)\<close>; \<open>None\<close> when the result has a code unit above 255.\<close>

definition capitalize :: "env \<Rightarrow> string \<Rightarrow> string option" where
  "capitalize env s =
     (if list_all is_ascii s then Some (ascii_capitalize (lodash env) s)
      else capitalize_other env s)"

definition call :: "event \<Rightarrow> err + 'a \<Rightarrow> 'a promise" where
  "call e r = ([e], r)"

definition then_p :: "'a promise \<Rightarrow> ('a \<Rightarrow> 'b promise) \<Rightarrow> 'b promise" where
  "then_p p f =
     (case snd p of
        Inl e \<Rightarrow> (fst p, Inl e)
      | Inr v \<Rightarrow> (fst p @ fst (f v), snd (f v)))"

definition catch_p :: "'a promise \<Rightarrow> (err \<Rightarrow> 'a promise) \<Rightarrow> 'a promise" where
  "catch_p p h =
     (case snd p of
        Inl e \<Rightarrow> (fst p @ fst (h e), snd (h e))
      | Inr v \<Rightarrow> p)"

text \<open>
  Modelled from the spec: \<open>_done\<close> is inherited from \<open>Job.Base\<close>, which is not part of
  this file; it is the single terminal signal \<open>complete(error)\<close>, which records its
  argument and returns.
\<close>

definition job_done :: "err option \<Rightarrow> unit promise" where
  "job_done e = ([Done e], Inr ())"

text \<open>
  Modelled from the spec: \<open>assert.isIn\<close> belongs to the injected \<open>Assert\<close> service; it
  passes when the value is a member of the list. No member of \<open>Object.prototype\<close> and
  not \<open>undefined\<close> has one of the listed codes as its string form.
\<close>

definition isIn :: "mode_result \<Rightarrow> string list \<Rightarrow> bool" where
  "isIn v xs = (case v of ModeString s \<Rightarrow> s \<in> set xs | _ \<Rightarrow> False)"

definition getNodeIp :: "env \<Rightarrow> job \<Rightarrow> err + string" where
  "getNodeIp env self =
     (let ip = nodeIp (ctx self) in if isIP env ip then Inr ip else Inl AssertionError)"

subsection \<open>Reading the reset prompt from the response body\<close>

text \<open>
  A property read \<open>v[key]\<close> for a key that no built-in prototype defines (the job reads
  \<open>result\<close>, \<open>length\<close>, \<open>atomic_test_data\<close>, \<open>secure_firmware_update\<close> and the string of
  a number): a \<open>TypeError\<close> on \<open>undefined\<close> and \<open>null\<close>.
\<close>

fun js_get :: "jsval \<Rightarrow> string \<Rightarrow> err + jsval" where
  "js_get JUndefined key = Inl TypeError"
| "js_get JNull key = Inl TypeError"
| "js_get (JBool b) key = Inr JUndefined"
| "js_get (JNum n) key = Inr JUndefined"
| "js_get (JStr s) key = Inr
     (if key = ''length'' then JNum (Finite (of_nat (length s)))
      else case find (\<lambda>i. show_nat i = key) [0..<length s] of
             Some i \<Rightarrow> JStr [s ! i]
           | None \<Rightarrow> JUndefined)"
| "js_get (JArr xs) key = Inr
     (if key = ''length'' then JNum (Finite (of_nat (length xs)))
      else case find (\<lambda>i. show_nat i = key) [0..<length xs] of
             Some i \<Rightarrow> xs ! i
           | None \<Rightarrow> JUndefined)"
| "js_get (JObj kvs) key = Inr (case map_of kvs key of Some v \<Rightarrow> v | None \<Rightarrow> JUndefined)"

text \<open>
  The property key of \<open>len - 2\<close>, that is \<open>String(Number(len) - 2)\<close>. When \<open>len\<close> is a
  number whose value is a safe integer and the difference is a safe integer too, the
  subtraction is exact and the key is the plain decimal string of the difference; for
  every other finite number the key is the engine's. \<open>undefined - 2\<close> is \<open>NaN\<close>,
  \<open>null\<close> counts as 0, \<open>true\<close> as 1 and \<open>false\<close> as 0.
\<close>

fun minus_2_key :: "env \<Rightarrow> jsval \<Rightarrow> err + string" where
  "minus_2_key env (JNum (Finite q)) =
     (if of_int \<lfloor>q\<rfloor> = q \<and> safe_integer \<lfloor>q\<rfloor> \<and> safe_integer (\<lfloor>q\<rfloor> - 2)
      then Inr (show_int (\<lfloor>q\<rfloor> - 2))
      else length_key env (JNum (Finite q)))"
| "minus_2_key env (JNum PosInfinity) = Inr ''Infinity''"
| "minus_2_key env (JNum NegInfinity) = Inr ''-Infinity''"
| "minus_2_key env (JNum NotANumber) = Inr ''NaN''"
| "minus_2_key env JUndefined = Inr ''NaN''"
| "minus_2_key env JNull = Inr ''-2''"
| "minus_2_key env (JBool b) = Inr (if b then ''-1'' else ''-2'')"
| "minus_2_key env v = length_key env v"

definition bind_err :: "err + 'a \<Rightarrow> ('a \<Rightarrow> err + 'b) \<Rightarrow> err + 'b" where
  "bind_err r f = (case r of Inl e \<Rightarrow> Inl e | Inr v \<Rightarrow> f v)"

text \<open>
  \<open>body.result[body.result.length-2].atomic_test_data.secure_firmware_update\<close>;
  \<open>Inl\<close> is the exception the \<open>try\<close> block catches.
\<close>

definition reset_flag_expr :: "env \<Rightarrow> jsval \<Rightarrow> err + jsval" where
  "reset_flag_expr env body =
     bind_err (js_get body ''result'') (\<lambda>result.
     bind_err (js_get result ''length'') (\<lambda>len.
     bind_err (minus_2_key env len) (\<lambda>key.
     bind_err (js_get result key) (\<lambda>entry.
     bind_err (js_get entry ''atomic_test_data'') (\<lambda>atomic_test_data.
     js_get atomic_test_data ''secure_firmware_update'')))))"

definition reset_prompt :: string where
  "reset_prompt = ''Issue warm reset NOW!''"

definition reset_flag_failure :: string where
  "reset_flag_failure = ''Failed to get reset flags from diag''"

text \<open>
  The callback that checks the body: \<open>parseFailed\<close> is
  \<open>!_.isEqual(resetFlag, 'Issue warm reset NOW!') || error\<close>.
\<close>

definition check_reset_flag :: "env \<Rightarrow> job \<Rightarrow> jsval \<Rightarrow> unit promise" where
  "check_reset_flag env self body =
     (let (resetFlag, error) =
            (case reset_flag_expr env body of
               Inr v \<Rightarrow> (v, None)
             | Inl e \<Rightarrow> (JUndefined, Some e));
          parseFailed = (resetFlag \<noteq> JStr reset_prompt \<or> error \<noteq> None)
      in if parseFailed
         then ([LogError reset_flag_failure error body (nodeId self)],
               Inl (Error reset_flag_failure))
         else ([], Inr ()))"

subsection \<open>The two update procedures and the run chain\<close>

definition updateBmc :: "env \<Rightarrow> job \<Rightarrow> string \<Rightarrow> mode \<Rightarrow> string \<Rightarrow> unit promise" where
  "updateBmc env self imageName' imageMode' diagImagePath' =
     (let m = parseBmcMode self imageMode' in
      if \<not> isIn m [''0x142'', ''0x140'', ''0x144'', ''0x145'', ''0x5f'']
      then ([], Inl AssertionError)
      else then_p
             (call (UpdateFirmware ''bmc'' imageName' m diagImagePath')
                   (updateFirmware env ''bmc'' imageName' m diagImagePath'))
             (\<lambda>body. if \<not> truthy (skipReset self)
                      then call (BmcReset False) (bmcReset env False)
                      else ([], Inr ())))"

definition updateSpi :: "env \<Rightarrow> job \<Rightarrow> string \<Rightarrow> mode \<Rightarrow> string \<Rightarrow> unit promise" where
  "updateSpi env self imageName' imageMode' diagImagePath' =
     (let m = parseSpiMode self imageMode' in
      if \<not> isIn m [''0'', ''1'', ''2'', ''3'', ''4'', ''5'']
      then ([], Inl AssertionError)
      else then_p
             (then_p
                (call (UpdateFirmware ''spi'' imageName' m diagImagePath')
                      (updateFirmware env ''spi'' imageName' m diagImagePath'))
                (\<lambda>body. check_reset_flag env self body))
             (\<lambda>u. if \<not> truthy (skipReset self)
                   then call (WarmReset False) (warmReset env False)
                   else ([], Inr ())))"

text \<open>
  \<open>self[method](...)\<close>: the job has the methods \<open>updateBmc\<close> and \<open>updateSpi\<close>; no other
  property of the job, of \<open>Job.Base\<close> or of \<open>Object.prototype\<close> has a name that begins
  with \<open>update\<close>, so every other name gives \<open>undefined\<close>, and calling it throws. A
  name with a code unit above 255 (\<open>None\<close>) is no method name either.
\<close>

definition method_name :: "env \<Rightarrow> job \<Rightarrow> string option" where
  "method_name env self =
     (case capitalize env (firmwareType self) of
        None \<Rightarrow> None
      | Some c \<Rightarrow> Some (''update'' @ c))"

definition dispatch :: "env \<Rightarrow> job \<Rightarrow> unit promise" where
  "dispatch env self =
     (let method = method_name env self in
      if method = Some ''updateBmc''
      then updateBmc env self (imageName self) (imageMode self) (diagImagePath self)
      else if method = Some ''updateSpi''
      then updateSpi env self (imageName self) (imageMode self) (diagImagePath self)
      else ([], Inl TypeError))"

definition discover :: "env \<Rightarrow> job \<Rightarrow> unit promise" where
  "discover env self =
     (case getNodeIp env self of
        Inl e \<Rightarrow> ([], Inl e)
      | Inr host \<Rightarrow>
          (case DiagTool env host (nodeId self) of
             Inl e \<Rightarrow> ([NewDiagTool host (nodeId self)], Inl e)
           | Inr u \<Rightarrow>
               ([NewDiagTool host (nodeId self),
                 RetrySyncDiscovery (retryDuration self) (retryCount self)],
                retrySyncDiscovery env (retryDuration self) (retryCount self))))"

definition run :: "env \<Rightarrow> job \<Rightarrow> unit promise" where
  "run env self =
     catch_p
       (then_p
          (then_p
             (then_p
                (then_p
                   (discover env self)
                   (\<lambda>u. call GetAllDevices (getAllDevices env)))
                (\<lambda>u. call (UploadImageFile (imageUrl self) (imageName self) ''/api/upload/file'')
                           (uploadImageFile env (imageUrl self) (imageName self)
                              ''/api/upload/file'')))
             (\<lambda>u. dispatch env self))
          (\<lambda>u. job_done None))
       (\<lambda>err. job_done (Some err))"

text \<open>
  The four stages of the chain, in order, and the failure policy of the specification
  for such a chain: the stages run in order up to the first one that is rejected, whose
  rejection is the outcome; the events of the later ones do not happen.
\<close>

definition stages :: "env \<Rightarrow> job \<Rightarrow> unit promise list" where
  "stages env self =
     [discover env self,
      call GetAllDevices (getAllDevices env),
      call (UploadImageFile (imageUrl self) (imageName self) ''/api/upload/file'')
           (uploadImageFile env (imageUrl self) (imageName self) ''/api/upload/file''),
      dispatch env self]"

fun run_stages :: "unit promise list \<Rightarrow> event list \<times> err option" where
  "run_stages [] = ([], None)"
| "run_stages (p # ps) =
     (case snd p of
        Inl e \<Rightarrow> (fst p, Some e)
      | Inr u \<Rightarrow> (fst p @ fst (run_stages ps), snd (run_stages ps)))"

text \<open>
  The states of the workflow of the specification (4.3), one stage for each step that
  can fail, each given by the events it causes and its outcome, from the outcomes of the
  collaborators alone: the address check, the creation of the tool and the discovery;
  the enumeration; the upload; then the method lookup and, for the method found, the
  mode check, the firmware update, on the SPI path the check of the body, and the
  reset unless \<open>skipReset\<close> is set. A stage after a rejected one never runs, so the
  check of the body stands for nothing when the update was rejected.
\<close>

definition unit_outcome :: "err + 'a \<Rightarrow> err + unit" where
  "unit_outcome r = (case r of Inl e \<Rightarrow> Inl e | Inr v \<Rightarrow> Inr ())"

definition assertion :: "bool \<Rightarrow> unit promise" where
  "assertion ok = ([], if ok then Inr () else Inl AssertionError)"

definition discovery_stages :: "env \<Rightarrow> job \<Rightarrow> unit promise list" where
  "discovery_stages env self =
     [assertion (isIP env (nodeIp (ctx self))),
      ([NewDiagTool (nodeIp (ctx self)) (nodeId self)],
       DiagTool env (nodeIp (ctx self)) (nodeId self)),
      ([RetrySyncDiscovery (retryDuration self) (retryCount self)],
       retrySyncDiscovery env (retryDuration self) (retryCount self))]"

definition reset_stages :: "job \<Rightarrow> event \<Rightarrow> err + unit \<Rightarrow> unit promise list" where
  "reset_stages self ev r = (if truthy (skipReset self) then [] else [([ev], r)])"

definition validating_stage :: "env \<Rightarrow> job \<Rightarrow> err + jsval \<Rightarrow> unit promise" where
  "validating_stage env self r =
     (case r of
        Inl e \<Rightarrow> ([], Inr ())
      | Inr body \<Rightarrow>
          if reset_flag_expr env body = Inr (JStr reset_prompt) then ([], Inr ())
          else ([LogError reset_flag_failure
                   (case reset_flag_expr env body of Inl e \<Rightarrow> Some e | Inr v \<Rightarrow> None)
                   body (nodeId self)],
                Inl (Error reset_flag_failure)))"

definition bmc_stages :: "env \<Rightarrow> job \<Rightarrow> unit promise list" where
  "bmc_stages env self =
     (let m = parseBmcMode self (imageMode self) in
      [assertion (isIn m [''0x142'', ''0x140'', ''0x144'', ''0x145'', ''0x5f'']),
       ([UpdateFirmware ''bmc'' (imageName self) m (diagImagePath self)],
        unit_outcome (updateFirmware env ''bmc'' (imageName self) m (diagImagePath self)))]
      @ reset_stages self (BmcReset False) (bmcReset env False))"

definition spi_stages :: "env \<Rightarrow> job \<Rightarrow> unit promise list" where
  "spi_stages env self =
     (let m = parseSpiMode self (imageMode self);
          r = updateFirmware env ''spi'' (imageName self) m (diagImagePath self) in
      [assertion (isIn m [''0'', ''1'', ''2'', ''3'', ''4'', ''5'']),
       ([UpdateFirmware ''spi'' (imageName self) m (diagImagePath self)], unit_outcome r),
       validating_stage env self r]
      @ reset_stages self (WarmReset False) (warmReset env False))"

definition update_stages :: "env \<Rightarrow> job \<Rightarrow> unit promise list" where
  "update_stages env self =
     (if method_name env self = Some ''updateBmc'' then bmc_stages env self
      else if method_name env self = Some ''updateSpi'' then spi_stages env self
      else [([], Inl TypeError)])"

definition all_stages :: "env \<Rightarrow> job \<Rightarrow> unit promise list" where
  "all_stages env self =
     discovery_stages env self
     @ [([GetAllDevices], getAllDevices env),
        ([UploadImageFile (imageUrl self) (imageName self) ''/api/upload/file''],
         uploadImageFile env (imageUrl self) (imageName self) ''/api/upload/file'')]
     @ update_stages env self"

fun is_Done :: "event \<Rightarrow> bool" where
  "is_Done (Done e) = True"
| "is_Done ev = False"

fun is_reset :: "event \<Rightarrow> bool" where
  "is_reset (BmcReset b) = True"
| "is_reset (WarmReset b) = True"
| "is_reset ev = False"

fun is_update :: "event \<Rightarrow> bool" where
  "is_update (UpdateFirmware k n m p) = True"
| "is_update ev = False"

subsection \<open>The statements of the specification\<close>

text \<open>
  \<open>translateSpiMode\<close> in the words of the specification: an input that parses as an
  integer gives the decimal string of that integer; any other input is looked up among
  the six names, and an unmapped one gives \<open>undefined\<close>.
\<close>

definition spec_translateSpiMode :: "mode \<Rightarrow> mode_result" where
  "spec_translateSpiMode input =
     (case parseInt (ToString input) of
        Some k \<Rightarrow> ModeString (show_int k)
      | None \<Rightarrow>
          (case map_of [(''fullbios'', ''0''), (''bios'', ''1''), (''uefi'', ''2''),
                        (''serdes'', ''3''), (''post'', ''4''), (''me'', ''5'')]
                       (ToString input) of
             Some v \<Rightarrow> ModeString v
           | None \<Rightarrow> ModeUndefined))"

text \<open>The valid identifiers of the two tables with the code each stands for.\<close>

definition valid_spi_identifiers :: "(mode \<times> string) list" where
  "valid_spi_identifiers =
     [(MStr ''fullbios'', ''0''), (MStr ''bios'', ''1''), (MStr ''uefi'', ''2''),
      (MStr ''serdes'', ''3''), (MStr ''post'', ''4''), (MStr ''me'', ''5''),
      (MNum 0, ''0''), (MNum 1, ''1''), (MNum 2, ''2''),
      (MNum 3, ''3''), (MNum 4, ''4''), (MNum 5, ''5''),
      (MStr ''0'', ''0''), (MStr ''1'', ''1''), (MStr ''2'', ''2''),
      (MStr ''3'', ''3''), (MStr ''4'', ''4''), (MStr ''5'', ''5'')]"

definition valid_bmc_identifiers :: "(mode \<times> string) list" where
  "valid_bmc_identifiers =
     [(MStr ''ssp'', ''0x142''), (MStr ''bmcapp'', ''0x140''), (MStr ''bootblock'', ''0x144''),
      (MStr ''adaptivecooling'', ''0x145''), (MStr ''fullbmc'', ''0x5f'')]"

definition bmc_codes :: "string list" where
  "bmc_codes = [''0x142'', ''0x140'', ''0x144'', ''0x145'', ''0x5f'']"

text \<open>
  The acceptance rule in the words of the specification: the result is a sequence with
  a second-to-last entry, and that entry has the nested field
  \<open>atomic_test_data.secure_firmware_update\<close> equal to the prompt.
\<close>

definition nested_field :: "jsval \<Rightarrow> jsval option" where
  "nested_field entry =
     (case entry of
        JObj e \<Rightarrow>
          (case map_of e ''atomic_test_data'' of
             Some (JObj a) \<Rightarrow> map_of a ''secure_firmware_update''
           | _ \<Rightarrow> None)
      | _ \<Rightarrow> None)"

definition spec_accepts :: "jsval \<Rightarrow> bool" where
  "spec_accepts body =
     (case body of
        JObj kvs \<Rightarrow>
          (case map_of kvs ''result'' of
             Some (JArr xs) \<Rightarrow>
               2 \<le> length xs \<and> nested_field (xs ! (length xs - 2)) = Some (JStr reset_prompt)
           | _ \<Rightarrow> False)
      | _ \<Rightarrow> False)"

text \<open>
  Modelled from the spec: \<open>retrySyncDiscovery\<close> is a method of \<open>JobUtils.DiagTool\<close>,
  which is not part of this file. It attempts the synchronous discovery up to
  \<open>retries\<close> times, waits the fixed delay between two attempts, resolves at the first
  attempt that succeeds and is rejected with a discovery-timeout error when the
  attempts are used up. \<open>attempt i\<close> is the outcome of attempt number \<open>i\<close>.
\<close>

datatype discovery_event = Attempt nat | Delay nat

definition DiscoveryExhaustedError :: err where
  "DiscoveryExhaustedError = Rejected ''discovery timeout''"

fun retry_from :: "(nat \<Rightarrow> bool) \<Rightarrow> nat \<Rightarrow> nat \<Rightarrow> nat \<Rightarrow> discovery_event list \<times> (err + unit)" where
  "retry_from attempt delay i 0 = ([], Inl DiscoveryExhaustedError)"
| "retry_from attempt delay i (Suc k) =
     (if attempt i then ([Attempt i], Inr ())
      else if k = 0 then ([Attempt i], Inl DiscoveryExhaustedError)
      else (Attempt i # Delay delay # fst (retry_from attempt delay (Suc i) k),
            snd (retry_from attempt delay (Suc i) k)))"

definition spec_retrySyncDiscovery ::
  "(nat \<Rightarrow> bool) \<Rightarrow> nat \<Rightarrow> nat \<Rightarrow> discovery_event list \<times> (err + unit)" where
  "spec_retrySyncDiscovery attempt delay retries = retry_from attempt delay 0 retries"

subsection \<open>Example inputs\<close>

text \<open>An IPv4 check for the examples: four decimal fields, each at most 255.\<close>

fun split_on :: "char \<Rightarrow> string \<Rightarrow> string list" where
  "split_on c [] = [[]]"
| "split_on c (x # xs) =
     (if x = c then [] # split_on c xs
      else (case split_on c xs of [] \<Rightarrow> [[x]] | p # ps \<Rightarrow> (x # p) # ps))"

definition dotted_quad :: "string \<Rightarrow> bool" where
  "dotted_quad s =
     (let parts = split_on CHR ''.'' s in
      length parts = 4 \<and>
      list_all (\<lambda>p. p \<noteq> [] \<and> list_all (is_radix_digit 10) p \<and> digits_value 10 p \<le> 255) parts)"

definition good_body :: jsval where
  "good_body = JObj [(''result'',
     JArr [JObj [(''atomic_test_data'', JObj [(''secure_firmware_update'', JStr ''progress'')])],
           JObj [(''atomic_test_data'',
                  JObj [(''secure_firmware_update'', JStr ''Issue warm reset NOW!'')])],
           JObj [(''status'', JStr ''ok'')]])]"

definition short_body :: jsval where
  "short_body = JObj [(''result'', JArr [JObj [(''status'', JStr ''ok'')]])]"

definition keyed_body :: jsval where
  "keyed_body = JObj [(''result'',
     JObj [(''NaN'', JObj [(''atomic_test_data'',
                            JObj [(''secure_firmware_update'', JStr ''Issue warm reset NOW!'')])])])]"

definition counted_body :: jsval where
  "counted_body = JObj [(''result'',
     JObj [(''length'', JNum (Finite 3)),
           (''1'', JObj [(''atomic_test_data'',
                          JObj [(''secure_firmware_update'', JStr ''Issue warm reset NOW!'')])])])]"

definition example_env :: env where
  "example_env =
     \<lparr> isIP = dotted_quad,
       lodash = Lodash3,
       capitalize_other = (\<lambda>s. None),
       DiagTool = (\<lambda>host node. Inr ()),
       retrySyncDiscovery = (\<lambda>delay retries. Inr ()),
       getAllDevices = Inr (),
       uploadImageFile = (\<lambda>url name path. Inr ()),
       updateFirmware = (\<lambda>kind name m path. Inr good_body),
       bmcReset = (\<lambda>flag. Inr ()),
       warmReset = (\<lambda>flag. Inr ()),
       length_key = (\<lambda>v. Inr ''NaN'') \<rparr>"

definition example_options :: options where
  "example_options =
     \<lparr> opt_imageUrl = ''http://10.1.1.1/bios.bin'',
       opt_imageName = ''bios.bin'',
       opt_imageMode = MStr ''bios'',
       opt_firmwareType = ''spi'',
       opt_skipReset = JUndefined \<rparr>"

definition example_context :: job_context where
  "example_context = \<lparr> target = ''node1'', nodeIp = ''10.1.1.3'' \<rparr>"

definition example_job :: job where
  "example_job = projr (DiagUpdateFirmware example_options example_context)"

definition upload_fail_env :: env where
  "upload_fail_env =
     example_env\<lparr>uploadImageFile := \<lambda>url name path. Inl (Rejected ''upload failed'')\<rparr>"

definition update_fail_env :: env where
  "update_fail_env =
     example_env\<lparr>updateFirmware := \<lambda>kind name m path. Inl (Rejected ''update failed'')\<rparr>"

definition reset_fail_env :: env where
  "reset_fail_env =
     example_env\<lparr>bmcReset := \<lambda>flag. Inl (Rejected ''reset failed''),
                 warmReset := \<lambda>flag. Inl (Rejected ''reset failed'')\<rparr>"

definition bad_context :: job_context where
  "bad_context = \<lparr> target = ''node1'', nodeIp = ''10.1.1.300'' \<rparr>"

definition Spi_options :: options where
  "Spi_options = example_options\<lparr>opt_firmwareType := ''Spi''\<rparr>"

definition bios_options :: options where
  "bios_options = example_options\<lparr>opt_firmwareType := ''bios'', opt_imageMode := MNum 3\<rparr>"

definition bmc_options :: options where
  "bmc_options = example_options\<lparr>opt_firmwareType := ''bmc'', opt_imageMode := MStr ''ssp'',
                                  opt_imageName := ''bmc.bin''\<rparr>"

definition skip_options :: options where
  "skip_options = example_options\<lparr>opt_skipReset := JBool True\<rparr>"

definition Spi_job :: job where
  "Spi_job = projr (DiagUpdateFirmware Spi_options example_context)"

definition bios_job :: job where
  "bios_job = projr (DiagUpdateFirmware bios_options example_context)"

definition bmc_job :: job where
  "bmc_job = projr (DiagUpdateFirmware bmc_options example_context)"

definition skip_job :: job where
  "skip_job = projr (DiagUpdateFirmware skip_options example_context)"

definition unreachable_env :: env where
  "unreachable_env =
     example_env\<lparr>retrySyncDiscovery :=
       \<lambda>delay retries. snd (spec_retrySyncDiscovery (\<lambda>i. False) delay retries)\<rparr>"

definition is_dec_char :: "char \<Rightarrow> bool" where
  "is_dec_char c = (\<exists>d<10. c = digit_char d)"

text \<open>A key that is neither \<open>length\<close> nor the decimal string of an index.\<close>

definition named_key :: "string \<Rightarrow> bool" where
  "named_key key \<longleftrightarrow> key \<noteq> ''length'' \<and> (\<exists>c \<in> set key. \<not> is_dec_char c)"

section \<open>Properties\<close>

subsection \<open>Decimal strings\<close>

lemma of_char_digit_char: "d < 10 \<Longrightarrow> (of_char (digit_char d) :: nat) = 48 + d"
  by (simp add: digit_char_def)

lemma digit_char_props:
  assumes "d < 10"
  shows "is_radix_digit 10 (digit_char d)" and "\<not> is_ws (digit_char d)"
    and "digit_char d \<noteq> CHR ''-''" and "digit_char d \<noteq> CHR ''+''"
    and "digit_char d \<noteq> CHR ''x''" and "digit_char d \<noteq> CHR ''X''"
proof -
  have n: "(of_char (digit_char d) :: nat) = 48 + d"
    using assms by (rule of_char_digit_char)
  show "is_radix_digit 10 (digit_char d)"
    using assms by (simp add: is_radix_digit_def digit_val_def n)
  show "\<not> is_ws (digit_char d)"
    using assms by (simp add: is_ws_def n)
  have ne: "\<And>c. (of_char c :: nat) \<noteq> 48 + d \<Longrightarrow> digit_char d \<noteq> c"
    using n by auto
  show "digit_char d \<noteq> CHR ''-''" using assms by (intro ne) simp
  show "digit_char d \<noteq> CHR ''+''" using assms by (intro ne) simp
  show "digit_char d \<noteq> CHR ''x''" using assms by (intro ne) simp
  show "digit_char d \<noteq> CHR ''X''" using assms by (intro ne) simp
qed

lemma is_dec_digit_char: "d < 10 \<Longrightarrow> is_dec_char (digit_char d)"
  by (auto simp: is_dec_char_def)

lemma show_nat_digits: "show_nat n \<noteq> [] \<and> (\<forall>c \<in> set (show_nat n). is_dec_char c)"
proof (induction n rule: show_nat.induct)
  case (1 n)
  show ?case
  proof (cases "n < 10")
    case True
    then show ?thesis
      by (subst (1 2) show_nat.simps) (simp add: is_dec_digit_char)
  next
    case False
    have "is_dec_char (digit_char (n mod 10))"
      by (rule is_dec_digit_char) simp
    with False 1 show ?thesis
      by (subst (1 2) show_nat.simps) auto
  qed
qed

lemma digits_facts:
  assumes "s \<noteq> []" and "\<forall>c \<in> set s. is_dec_char c"
  shows "dropWhile is_ws s = s" and "take 1 s \<noteq> ''-''" and "take 1 s \<noteq> ''+''"
    and "take 2 s \<noteq> ''0x''" and "take 2 s \<noteq> ''0X''"
    and "takeWhile (is_radix_digit 10) s \<noteq> []"
proof -
  obtain c cs where s: "s = c # cs" using assms(1) by (cases s) auto
  obtain d where d: "d < 10" "c = digit_char d"
    using assms(2) s by (auto simp: is_dec_char_def)
  show "dropWhile is_ws s = s"
    using digit_char_props(2)[OF d(1)] s d(2) by simp
  show "take 1 s \<noteq> ''-''" "take 1 s \<noteq> ''+''"
    using digit_char_props(3,4)[OF d(1)] s d(2) by auto
  { fix y assume y: "y = CHR ''x'' \<or> y = CHR ''X''" and "take 2 s = [CHR ''0'', y]"
    then have "y \<in> set s" by (metis in_set_takeD list.set_intros(1,2))
    then obtain e where "e < 10" "y = digit_char e"
      using assms(2) by (auto simp: is_dec_char_def)
    then have False using digit_char_props(5,6)[of e] y by auto }
  then show "take 2 s \<noteq> ''0x''" "take 2 s \<noteq> ''0X''" by auto
  show "takeWhile (is_radix_digit 10) s \<noteq> []"
    using digit_char_props(1)[OF d(1)] s d(2) by simp
qed

lemma parseInt_show_int: "parseInt (show_int n) \<noteq> None"
proof (cases "n < 0")
  case False
  let ?s = "show_nat (nat n)"
  have ne: "?s \<noteq> []" and dg: "\<forall>c \<in> set ?s. is_dec_char c"
    using show_nat_digits[of "nat n"] by auto
  show ?thesis
    using False digits_facts[OF ne dg] by (simp add: show_int_def parseInt_def Let_def)
next
  case True
  let ?s = "show_nat (nat (- n))"
  have ne: "?s \<noteq> []" and dg: "\<forall>c \<in> set ?s. is_dec_char c"
    using show_nat_digits[of "nat (- n)"] by auto
  have "\<not> is_ws CHR ''-''" by (simp add: is_ws_def)
  then show ?thesis
    using True digits_facts[OF ne dg] by (simp add: show_int_def parseInt_def Let_def)
qed

subsection \<open>Mode translation\<close>

lemma constructed_fields:
  assumes "DiagUpdateFirmware opts cx = Inr self"
  shows "spiModeMapping self =
           [(''fullbios'', ''0''), (''bios'', ''1''), (''uefi'', ''2''),
            (''serdes'', ''3''), (''post'', ''4''), (''me'', ''5'')]"
    and "bmcModeMapping self =
           [(''ssp'', ''0x142''), (''bmcapp'', ''0x140''), (''bootblock'', ''0x144''),
            (''adaptivecooling'', ''0x145''), (''fullbmc'', ''0x5f'')]"
    and "retryCount self = 6" and "retryDuration self = 5000"
    and "ctx self = cx" and "nodeId self = target cx"
    and "firmwareType self = opt_firmwareType opts"
    and "imageMode self = opt_imageMode opts"
    and "imageName self = opt_imageName opts"
    and "imageUrl self = opt_imageUrl opts"
    and "diagImagePath self = ''/uploads''"
    and "skipReset self = js_or (opt_skipReset opts) (JBool False)"
  using assms by (auto simp: DiagUpdateFirmware_def)

lemma example_job_constructed:
  "DiagUpdateFirmware example_options example_context = Inr example_job"
  by (simp add: example_job_def DiagUpdateFirmware_def)

lemma parseInt_names:
  "parseInt ''fullbios'' = None" "parseInt ''bios'' = None" "parseInt ''uefi'' = None"
  "parseInt ''serdes'' = None" "parseInt ''post'' = None" "parseInt ''me'' = None"
  by code_simp+

lemma parseInt_codes:
  "parseInt ''0'' \<noteq> None" "parseInt ''1'' \<noteq> None" "parseInt ''2'' \<noteq> None"
  "parseInt ''3'' \<noteq> None" "parseInt ''4'' \<noteq> None" "parseInt ''5'' \<noteq> None"
  by code_simp+

lemma show_int_codes:
  "show_int 0 = ''0''" "show_int 1 = ''1''" "show_int 2 = ''2''"
  "show_int 3 = ''3''" "show_int 4 = ''4''" "show_int 5 = ''5''"
  by code_simp+

lemma sint_codes:
  "sint (0 :: 54 word) = 0" "sint (1 :: 54 word) = 1" "sint (2 :: 54 word) = 2"
  "sint (3 :: 54 word) = 3" "sint (4 :: 54 word) = 4" "sint (5 :: 54 word) = 5"
  by simp_all

lemma sint_range: "- (2 ^ 53) \<le> sint (w :: 54 word) \<and> sint w < 2 ^ 53"
  using sint_ge[of w] sint_lt[of w] by simp

text \<open>
  C3 (as amended). For a job the constructor built: an integer from \<open>-2^53\<close> to
  \<open>2^53 - 1\<close> is translated to its decimal string; a string for which \<open>parseInt\<close>
  gives a number is returned as it is, unchanged (so \<open>03\<close> stays \<open>03\<close>); a string for
  which \<open>parseInt\<close> gives \<open>NaN\<close> is read from the SPI table, which gives the code for
  the six names, the inherited member for a name of \<open>Object.prototype\<close>, and
  \<open>undefined\<close> for every other string. Every valid identifier, a name or one of 0 to 5
  as a number or a string, gives its code.
\<close>

theorem parseSpiMode_translation:
  assumes "DiagUpdateFirmware opts cx = Inr self"
  shows "(\<forall>w. parseSpiMode self (MNum w) = ModeString (show_int (sint w)) \<and>
              - (2 ^ 53) \<le> sint w \<and> sint w < 2 ^ 53) \<and>
         (\<forall>s. parseInt s \<noteq> None \<longrightarrow> parseSpiMode self (MStr s) = ModeString s) \<and>
         (\<forall>s. parseInt s = None \<longrightarrow>
              parseSpiMode self (MStr s) =
                (case map_of [(''fullbios'', ''0''), (''bios'', ''1''), (''uefi'', ''2''),
                              (''serdes'', ''3''), (''post'', ''4''), (''me'', ''5'')] s of
                   Some v \<Rightarrow> ModeString v
                 | None \<Rightarrow> if s \<in> set object_prototype_names then ModeInherited s
                           else ModeUndefined)) \<and>
         (\<forall>(m, code) \<in> set valid_spi_identifiers. parseSpiMode self m = ModeString code)"
proof (intro conjI allI impI)
  note tbl = constructed_fields(1)[OF assms]
  show "parseSpiMode self (MNum w) = ModeString (show_int (sint w))" for w
    using parseInt_show_int[of "sint w"] by (auto simp: parseSpiMode_def)
  show "- (2 ^ 53) \<le> sint w" and "sint w < 2 ^ 53" for w :: "54 word"
    using sint_range[of w] by simp_all
  show "parseSpiMode self (MStr s) = ModeString s" if "parseInt s \<noteq> None" for s
    using that by (auto simp: parseSpiMode_def)
  show "parseSpiMode self (MStr s) =
          (case map_of [(''fullbios'', ''0''), (''bios'', ''1''), (''uefi'', ''2''),
                        (''serdes'', ''3''), (''post'', ''4''), (''me'', ''5'')] s of
             Some v \<Rightarrow> ModeString v
           | None \<Rightarrow> if s \<in> set object_prototype_names then ModeInherited s
                     else ModeUndefined)"
    if "parseInt s = None" for s
    using that by (simp add: parseSpiMode_def mapping_get_def tbl)
  show "\<forall>(m, code) \<in> set valid_spi_identifiers. parseSpiMode self m = ModeString code"
    using parseInt_names parseInt_codes parseInt_show_int
    by (auto simp: valid_spi_identifiers_def parseSpiMode_def mapping_get_def tbl
        show_int_codes sint_codes)
qed

theorem parseSpiMode_translation_witness:
  "DiagUpdateFirmware example_options example_context = Inr example_job \<and>
   parseSpiMode example_job (MNum 3) = ModeString ''3'' \<and>
   parseInt ''4'' \<noteq> None \<and> parseSpiMode example_job (MStr ''4'') = ModeString ''4'' \<and>
   parseInt ''uefi'' = None \<and> parseSpiMode example_job (MStr ''uefi'') = ModeString ''2'' \<and>
   parseInt ''flash'' = None \<and> parseSpiMode example_job (MStr ''flash'') = ModeUndefined \<and>
   (MStr ''me'', ''5'') \<in> set valid_spi_identifiers \<and>
   parseSpiMode example_job (MStr ''me'') = ModeString ''5''"
proof -
  note t = parseSpiMode_translation[OF example_job_constructed]
  have p4: "parseInt ''4'' \<noteq> None" and pu: "parseInt ''uefi'' = None"
    and pf: "parseInt ''flash'' = None"
    by code_simp+
  have me: "(MStr ''me'', ''5'') \<in> set valid_spi_identifiers"
    by (simp add: valid_spi_identifiers_def)
  have "parseSpiMode example_job (MNum 3) = ModeString ''3''"
    using t show_int_codes sint_codes by simp
  moreover have "parseSpiMode example_job (MStr ''4'') = ModeString ''4''"
    using t p4 by blast
  moreover have "parseSpiMode example_job (MStr ''uefi'') = ModeString ''2''"
    using t pu by simp
  moreover have "parseSpiMode example_job (MStr ''flash'') = ModeUndefined"
    using t pf by (simp add: object_prototype_names_def)
  moreover have "parseSpiMode example_job (MStr ''me'') = ModeString ''5''"
    using t me by blast
  ultimately show ?thesis
    using example_job_constructed p4 pu pf me by simp
qed

text \<open>
  Where the code leaves the wording of C3: \<open>03\<close> parses as the integer 3, whose decimal
  string is \<open>3\<close>, and the code returns \<open>03\<close>; \<open>constructor\<close> is not in the table, and
  the code returns the inherited member instead of \<open>undefined\<close>.
\<close>

theorem parseSpiMode_counterexample:
  "parseInt ''03'' = Some 3 \<and>
   spec_translateSpiMode (MStr ''03'') = ModeString ''3'' \<and>
   parseSpiMode example_job (MStr ''03'') = ModeString ''03'' \<and>
   parseInt ''constructor'' = None \<and>
   spec_translateSpiMode (MStr ''constructor'') = ModeUndefined \<and>
   parseSpiMode example_job (MStr ''constructor'') = ModeInherited ''constructor''"
  by code_simp

lemma startsWith_0x: "startsWith s ''0x'' \<longleftrightarrow> (\<exists>t. s = ''0x'' @ t)"
proof
  assume "startsWith s ''0x''"
  then have "take 2 s = ''0x''" by (simp add: startsWith_def numeral_2_eq_2)
  then have "s = ''0x'' @ drop 2 s" by (metis append_take_drop_id)
  then show "\<exists>t. s = ''0x'' @ t" ..
next
  assume "\<exists>t. s = ''0x'' @ t"
  then show "startsWith s ''0x''" by (auto simp: startsWith_def)
qed

text \<open>
  C4. For a job the constructor built: an input that begins with \<open>0x\<close> is returned
  unchanged; every other input is looked up in the BMC table, so each of the five valid
  names gives its code; and a string result is one of the five codes or the
  \<open>0x\<close>-prefixed input itself.
\<close>

theorem parseBmcMode_translation:
  assumes "DiagUpdateFirmware opts cx = Inr self"
  shows "(\<forall>t. parseBmcMode self (MStr (''0x'' @ t)) = ModeString (''0x'' @ t)) \<and>
         (\<forall>m. (\<forall>t. ToString m \<noteq> ''0x'' @ t) \<longrightarrow>
              parseBmcMode self m =
                mapping_get [(''ssp'', ''0x142''), (''bmcapp'', ''0x140''),
                             (''bootblock'', ''0x144''), (''adaptivecooling'', ''0x145''),
                             (''fullbmc'', ''0x5f'')] (ToString m)) \<and>
         (\<forall>(m, code) \<in> set valid_bmc_identifiers. parseBmcMode self m = ModeString code) \<and>
         (\<forall>m s. parseBmcMode self m = ModeString s \<longrightarrow>
                s \<in> set bmc_codes \<or> (\<exists>t. m = MStr s \<and> s = ''0x'' @ t))"
proof (intro conjI allI impI)
  note tbl = constructed_fields(2)[OF assms]
  show "parseBmcMode self (MStr (''0x'' @ t)) = ModeString (''0x'' @ t)" for t
    by (simp add: parseBmcMode_def startsWith_def)
  show "parseBmcMode self m =
          mapping_get [(''ssp'', ''0x142''), (''bmcapp'', ''0x140''),
                       (''bootblock'', ''0x144''), (''adaptivecooling'', ''0x145''),
                       (''fullbmc'', ''0x5f'')] (ToString m)"
    if "\<forall>t. ToString m \<noteq> ''0x'' @ t" for m
    using that startsWith_0x[of "ToString m"] by (simp add: parseBmcMode_def tbl)
  show "\<forall>(m, code) \<in> set valid_bmc_identifiers. parseBmcMode self m = ModeString code"
    by (simp add: valid_bmc_identifiers_def parseBmcMode_def startsWith_def mapping_get_def tbl)
  show "s \<in> set bmc_codes \<or> (\<exists>t. m = MStr s \<and> s = ''0x'' @ t)"
    if h: "parseBmcMode self m = ModeString s" for m s
  proof (cases "startsWith (ToString m) ''0x''")
    case True
    then have s: "s = ToString m" using h by (simp add: parseBmcMode_def)
    from True obtain t where t: "ToString m = ''0x'' @ t" using startsWith_0x by blast
    have "m = MStr s"
    proof (cases m)
      case (MStr x)
      then show ?thesis using s by simp
    next
      case (MNum n)
      have "show_int (sint n) \<noteq> [] \<and>
            (hd (show_int (sint n)) = CHR ''-'' \<or> (\<forall>c \<in> set (show_int (sint n)). is_dec_char c))"
        using show_nat_digits by (auto simp: show_int_def)
      moreover have "\<not> is_dec_char CHR ''x''"
      proof
        assume "is_dec_char CHR ''x''"
        then obtain d where "d < 10" "CHR ''x'' = digit_char d"
          by (auto simp: is_dec_char_def)
        then show False using digit_char_props(5)[of d] by simp
      qed
      ultimately have False using t MNum by auto
      then show ?thesis ..
    qed
    then show ?thesis using s t by auto
  next
    case False
    then have "mapping_get (bmcModeMapping self) (ToString m) = ModeString s"
      using h by (simp add: parseBmcMode_def)
    then have "s \<in> set bmc_codes"
      unfolding tbl mapping_get_def bmc_codes_def
      by (auto split: option.splits if_splits)
    then show ?thesis ..
  qed
qed

theorem parseBmcMode_translation_witness:
  "DiagUpdateFirmware example_options example_context = Inr example_job \<and>
   parseBmcMode example_job (MStr ''0x999'') = ModeString ''0x999'' \<and>
   (\<forall>t. ToString (MStr ''bogus'') \<noteq> ''0x'' @ t) \<and>
   parseBmcMode example_job (MStr ''bogus'') = ModeUndefined \<and>
   (MStr ''fullbmc'', ''0x5f'') \<in> set valid_bmc_identifiers \<and>
   parseBmcMode example_job (MStr ''fullbmc'') = ModeString ''0x5f'' \<and>
   parseBmcMode example_job (MStr ''ssp'') = ModeString ''0x142'' \<and>
   ''0x142'' \<in> set bmc_codes"
proof -
  note t = parseBmcMode_translation[OF example_job_constructed]
  have a: "parseBmcMode example_job (MStr ''0x999'') = ModeString ''0x999''"
    using t by (metis append_Cons append_Nil)
  have nb: "\<forall>t. ToString (MStr ''bogus'') \<noteq> ''0x'' @ t" by simp
  have b: "parseBmcMode example_job (MStr ''bogus'') = ModeUndefined"
    using t nb by (simp add: mapping_get_def object_prototype_names_def)
  have f: "(MStr ''fullbmc'', ''0x5f'') \<in> set valid_bmc_identifiers"
    and s: "(MStr ''ssp'', ''0x142'') \<in> set valid_bmc_identifiers"
    by (simp_all add: valid_bmc_identifiers_def)
  have c: "parseBmcMode example_job (MStr ''fullbmc'') = ModeString ''0x5f''"
    using t f by blast
  have d: "parseBmcMode example_job (MStr ''ssp'') = ModeString ''0x142''"
    using t s by blast
  have "''0x142'' \<in> set bmc_codes \<or> (\<exists>t. MStr ''ssp'' = MStr ''0x142'' \<and> ''0x142'' = ''0x'' @ t)"
    using t d by blast
  then have e: "''0x142'' \<in> set bmc_codes" by simp
  show ?thesis using example_job_constructed a nb b f c d e by simp
qed

subsection \<open>The update procedures\<close>

lemma then_p_simps:
  "then_p (t, Inl e) f = (t, Inl e)"
  "then_p (t, Inr v) f = (t @ fst (f v), snd (f v))"
  by (simp_all add: then_p_def)

lemma catch_p_simps:
  "catch_p (t, Inl e) h = (t @ fst (h e), snd (h e))"
  "catch_p (t, Inr v) h = (t, Inr v)"
  by (simp_all add: catch_p_def)

lemma isIn_iff: "isIn v xs \<longleftrightarrow> (\<exists>s \<in> set xs. v = ModeString s)"
  by (cases v) (auto simp: isIn_def)

lemma updateBmc_invalid:
  assumes "\<not> isIn (parseBmcMode self m) [''0x142'', ''0x140'', ''0x144'', ''0x145'', ''0x5f'']"
  shows "updateBmc env self name m path = ([], Inl AssertionError)"
  using assms by (simp add: updateBmc_def Let_def)

lemma updateBmc_valid:
  assumes "isIn (parseBmcMode self m) [''0x142'', ''0x140'', ''0x144'', ''0x145'', ''0x5f'']"
  shows "updateBmc env self name m path =
           (case updateFirmware env ''bmc'' name (parseBmcMode self m) path of
              Inl e \<Rightarrow> ([UpdateFirmware ''bmc'' name (parseBmcMode self m) path], Inl e)
            | Inr body \<Rightarrow>
                if truthy (skipReset self)
                then ([UpdateFirmware ''bmc'' name (parseBmcMode self m) path], Inr ())
                else ([UpdateFirmware ''bmc'' name (parseBmcMode self m) path, BmcReset False],
                      bmcReset env False))"
  using assms
  by (simp add: updateBmc_def Let_def call_def then_p_simps split: sum.splits)

text \<open>
  C5. \<open>updateBmc\<close> checks the translated mode against the five codes: a mode whose
  translation is not one of them makes it fail with the assertion error before any call
  to the diagnostic tool, a mode whose translation is one of them reaches the firmware
  update with that code; the raw input \<open>0x999\<close> passes through the translation
  unchanged and is then rejected.
\<close>

theorem updateBmc_validates_mode:
  "(\<forall>m. parseBmcMode self m \<notin> ModeString ` set bmc_codes \<longrightarrow>
        updateBmc env self name m path = ([], Inl AssertionError)) \<and>
   (\<forall>m. parseBmcMode self m \<in> ModeString ` set bmc_codes \<longrightarrow>
        take 1 (fst (updateBmc env self name m path)) =
          [UpdateFirmware ''bmc'' name (parseBmcMode self m) path]) \<and>
   parseBmcMode self (MStr ''0x999'') = ModeString ''0x999'' \<and>
   updateBmc env self name (MStr ''0x999'') path = ([], Inl AssertionError)"
proof (intro conjI allI impI)
  have iff: "isIn v [''0x142'', ''0x140'', ''0x144'', ''0x145'', ''0x5f'']
               \<longleftrightarrow> v \<in> ModeString ` set bmc_codes" for v
    by (auto simp: isIn_iff bmc_codes_def)
  show "updateBmc env self name m path = ([], Inl AssertionError)"
    if "parseBmcMode self m \<notin> ModeString ` set bmc_codes" for m
    using that iff by (intro updateBmc_invalid) simp
  show "take 1 (fst (updateBmc env self name m path)) =
          [UpdateFirmware ''bmc'' name (parseBmcMode self m) path]"
    if "parseBmcMode self m \<in> ModeString ` set bmc_codes" for m
    using that iff[of "parseBmcMode self m"]
    by (simp add: updateBmc_valid split: sum.splits)
  show p: "parseBmcMode self (MStr ''0x999'') = ModeString ''0x999''"
    by (simp add: parseBmcMode_def startsWith_def)
  show "updateBmc env self name (MStr ''0x999'') path = ([], Inl AssertionError)"
    by (rule updateBmc_invalid) (simp add: p isIn_def)
qed

theorem updateBmc_validates_mode_witness:
  "parseBmcMode example_job (MStr ''bogus'') \<notin> ModeString ` set bmc_codes \<and>
   updateBmc example_env example_job ''bmc.bin'' (MStr ''bogus'') ''/uploads''
     = ([], Inl AssertionError) \<and>
   parseBmcMode example_job (MStr ''ssp'') \<in> ModeString ` set bmc_codes \<and>
   take 1 (fst (updateBmc example_env example_job ''bmc.bin'' (MStr ''ssp'') ''/uploads''))
     = [UpdateFirmware ''bmc'' ''bmc.bin'' (ModeString ''0x142'') ''/uploads''] \<and>
   updateBmc example_env example_job ''bmc.bin'' (MStr ''0x999'') ''/uploads''
     = ([], Inl AssertionError)"
proof -
  note t = updateBmc_validates_mode[of example_job example_env "''bmc.bin''" "''/uploads''"]
  have b: "parseBmcMode example_job (MStr ''bogus'') = ModeUndefined"
    and s: "parseBmcMode example_job (MStr ''ssp'') = ModeString ''0x142''"
    by code_simp+
  have nb: "parseBmcMode example_job (MStr ''bogus'') \<notin> ModeString ` set bmc_codes"
    by (auto simp: b)
  have ns: "parseBmcMode example_job (MStr ''ssp'') \<in> ModeString ` set bmc_codes"
    by (simp add: s bmc_codes_def)
  have 1: "updateBmc example_env example_job ''bmc.bin'' (MStr ''bogus'') ''/uploads''
             = ([], Inl AssertionError)"
    using t nb by blast
  have 2: "take 1 (fst (updateBmc example_env example_job ''bmc.bin'' (MStr ''ssp'') ''/uploads''))
             = [UpdateFirmware ''bmc'' ''bmc.bin'' (ModeString ''0x142'') ''/uploads'']"
    using t ns s by metis
  have 3: "updateBmc example_env example_job ''bmc.bin'' (MStr ''0x999'') ''/uploads''
             = ([], Inl AssertionError)"
    using t by blast
  show ?thesis using nb 1 ns 2 3 by blast
qed

lemma check_reset_flag_eq:
  "check_reset_flag env self body =
     (if reset_flag_expr env body = Inr (JStr reset_prompt) then ([], Inr ())
      else ([LogError reset_flag_failure
               (case reset_flag_expr env body of Inl e \<Rightarrow> Some e | Inr v \<Rightarrow> None)
               body (nodeId self)],
            Inl (Error reset_flag_failure)))"
  by (auto simp: check_reset_flag_def split: sum.splits)

lemma updateSpi_invalid:
  assumes "\<not> isIn (parseSpiMode self m) [''0'', ''1'', ''2'', ''3'', ''4'', ''5'']"
  shows "updateSpi env self name m path = ([], Inl AssertionError)"
  using assms by (simp add: updateSpi_def Let_def)

lemma updateSpi_valid:
  assumes "isIn (parseSpiMode self m) [''0'', ''1'', ''2'', ''3'', ''4'', ''5'']"
  shows "updateSpi env self name m path =
           (case updateFirmware env ''spi'' name (parseSpiMode self m) path of
              Inl e \<Rightarrow> ([UpdateFirmware ''spi'' name (parseSpiMode self m) path], Inl e)
            | Inr body \<Rightarrow>
                if reset_flag_expr env body = Inr (JStr reset_prompt)
                then (if truthy (skipReset self)
                      then ([UpdateFirmware ''spi'' name (parseSpiMode self m) path], Inr ())
                      else ([UpdateFirmware ''spi'' name (parseSpiMode self m) path,
                             WarmReset False],
                            warmReset env False))
                else ([UpdateFirmware ''spi'' name (parseSpiMode self m) path,
                       LogError reset_flag_failure
                         (case reset_flag_expr env body of Inl e \<Rightarrow> Some e | Inr v \<Rightarrow> None)
                         body (nodeId self)],
                      Inl (Error reset_flag_failure)))"
  using assms
  by (simp add: updateSpi_def Let_def call_def then_p_simps check_reset_flag_eq
      split: sum.splits)

lemma minus_2_key_cong:
  assumes "length_key env' = length_key env"
  shows "minus_2_key env' v = minus_2_key env v"
proof (cases v)
  case (JNum x)
  then show ?thesis using assms by (cases x) auto
qed (use assms in simp_all)

lemma reset_flag_expr_cong:
  "length_key env' = length_key env \<Longrightarrow> reset_flag_expr env' body = reset_flag_expr env body"
  by (simp add: reset_flag_expr_def minus_2_key_cong[of env' env])

lemma example_flags:
  "reset_flag_expr example_env good_body = Inr (JStr reset_prompt)"
  "reset_flag_expr example_env short_body = Inl TypeError"
  "reset_flag_expr example_env keyed_body = Inr (JStr reset_prompt)"
  by code_simp+

lemma example_job_fields:
  "skipReset example_job = JBool False" "nodeId example_job = ''node1''"
  "imageName example_job = ''bios.bin''" "imageMode example_job = MStr ''bios''"
  "firmwareType example_job = ''spi''" "diagImagePath example_job = ''/uploads''"
  "imageUrl example_job = ''http://10.1.1.1/bios.bin''"
  "nodeIp (ctx example_job) = ''10.1.1.3''"
  "retryCount example_job = 6" "retryDuration example_job = 5000"
  by (simp_all add: example_job_def DiagUpdateFirmware_def example_options_def
      example_context_def js_or_def)

lemma example_modes:
  "parseSpiMode example_job (MStr ''bios'') = ModeString ''1''"
  "parseBmcMode example_job (MStr ''ssp'') = ModeString ''0x142''"
  "parseBmcMode example_job (MStr ''bogus'') = ModeUndefined"
  by code_simp+

lemma example_env_fields:
  "isIP example_env = dotted_quad" "lodash example_env = Lodash3"
  "DiagTool example_env = (\<lambda>host node. Inr ())"
  "retrySyncDiscovery example_env = (\<lambda>delay retries. Inr ())"
  "getAllDevices example_env = Inr ()"
  "uploadImageFile example_env = (\<lambda>url name path. Inr ())"
  "updateFirmware example_env = (\<lambda>kind name m path. Inr good_body)"
  "bmcReset example_env = (\<lambda>flag. Inr ())"
  "warmReset example_env = (\<lambda>flag. Inr ())"
  by (simp_all add: example_env_def)

text \<open>
  C10. \<open>updateBmc\<close> does not look at the body the firmware update resolves with: two
  tools that resolve with different bodies give the same run of \<open>updateBmc\<close>, which
  after a resolved update goes straight to the reset, or ends successfully when
  \<open>skipReset\<close> is set. \<open>updateSpi\<close> does depend on the body.
\<close>

theorem updateBmc_ignores_body:
  "(updateBmc (env\<lparr>updateFirmware := \<lambda>kind name' m path'. Inr body1\<rparr>) self name mode path
      = updateBmc (env\<lparr>updateFirmware := \<lambda>kind name' m path'. Inr body2\<rparr>) self name mode path) \<and>
   (isIn (parseBmcMode self mode) [''0x142'', ''0x140'', ''0x144'', ''0x145'', ''0x5f''] \<and>
    updateFirmware env ''bmc'' name (parseBmcMode self mode) path = Inr body \<longrightarrow>
      updateBmc env self name mode path =
        (if truthy (skipReset self)
         then ([UpdateFirmware ''bmc'' name (parseBmcMode self mode) path], Inr ())
         else ([UpdateFirmware ''bmc'' name (parseBmcMode self mode) path, BmcReset False],
               bmcReset env False))) \<and>
   updateSpi (example_env\<lparr>updateFirmware := \<lambda>kind name' m path'. Inr good_body\<rparr>)
       example_job ''bios.bin'' (MStr ''bios'') ''/uploads''
     \<noteq> updateSpi (example_env\<lparr>updateFirmware := \<lambda>kind name' m path'. Inr short_body\<rparr>)
       example_job ''bios.bin'' (MStr ''bios'') ''/uploads''"
proof (intro conjI impI)
  show "updateBmc (env\<lparr>updateFirmware := \<lambda>kind name' m path'. Inr body1\<rparr>) self name mode path
      = updateBmc (env\<lparr>updateFirmware := \<lambda>kind name' m path'. Inr body2\<rparr>) self name mode path"
    by (simp add: updateBmc_def Let_def call_def then_p_simps)
  show "updateBmc env self name mode path =
        (if truthy (skipReset self)
         then ([UpdateFirmware ''bmc'' name (parseBmcMode self mode) path], Inr ())
         else ([UpdateFirmware ''bmc'' name (parseBmcMode self mode) path, BmcReset False],
               bmcReset env False))"
    if "isIn (parseBmcMode self mode) [''0x142'', ''0x140'', ''0x144'', ''0x145'', ''0x5f''] \<and>
        updateFirmware env ''bmc'' name (parseBmcMode self mode) path = Inr body"
    using that by (simp add: updateBmc_valid)
  have v: "isIn (parseSpiMode example_job (MStr ''bios'')) [''0'', ''1'', ''2'', ''3'', ''4'', ''5'']"
    by (simp add: example_modes isIn_def)
  have g: "reset_flag_expr (example_env\<lparr>updateFirmware := f\<rparr>) b = reset_flag_expr example_env b"
    for f b
    by (rule reset_flag_expr_cong) simp
  show "updateSpi (example_env\<lparr>updateFirmware := \<lambda>kind name' m path'. Inr good_body\<rparr>)
       example_job ''bios.bin'' (MStr ''bios'') ''/uploads''
     \<noteq> updateSpi (example_env\<lparr>updateFirmware := \<lambda>kind name' m path'. Inr short_body\<rparr>)
       example_job ''bios.bin'' (MStr ''bios'') ''/uploads''"
    by (simp add: updateSpi_valid[OF v] example_flags g example_job_fields)
qed

theorem updateBmc_ignores_body_witness:
  "isIn (parseBmcMode example_job (MStr ''ssp'')) [''0x142'', ''0x140'', ''0x144'', ''0x145'', ''0x5f''] \<and>
   updateFirmware example_env ''bmc'' ''bmc.bin'' (parseBmcMode example_job (MStr ''ssp'')) ''/uploads''
     = Inr good_body \<and>
   updateBmc example_env example_job ''bmc.bin'' (MStr ''ssp'') ''/uploads''
     = ([UpdateFirmware ''bmc'' ''bmc.bin'' (ModeString ''0x142'') ''/uploads'', BmcReset False],
        Inr ())"
proof -
  have v: "isIn (parseBmcMode example_job (MStr ''ssp'')) [''0x142'', ''0x140'', ''0x144'', ''0x145'', ''0x5f'']"
    by (simp add: example_modes isIn_def)
  have u: "updateFirmware example_env ''bmc'' ''bmc.bin'' (parseBmcMode example_job (MStr ''ssp'')) ''/uploads''
     = Inr good_body"
    by (simp add: example_env_fields)
  show ?thesis
    using updateBmc_ignores_body[where env = example_env and self = example_job
        and name = "''bmc.bin''" and mode = "MStr ''ssp''" and path = "''/uploads''"
        and body = good_body and ?body1.0 = good_body and ?body2.0 = good_body] v u
    by (simp add: example_job_fields example_modes example_env_fields)
qed

subsection \<open>The run chain\<close>

lemma run_stages_ok:
  "(\<forall>p \<in> set ps. \<exists>u. snd p = Inr u) \<Longrightarrow> run_stages ps = (concat (map fst ps), None)"
  by (induction ps) auto

lemma run_stages_fail:
  "i < length ps \<Longrightarrow> snd (ps ! i) = Inl e \<Longrightarrow> (\<forall>j<i. \<exists>u. snd (ps ! j) = Inr u) \<Longrightarrow>
     run_stages ps = (concat (map fst (take (Suc i) ps)), Some e)"
proof (induction ps arbitrary: i)
  case Nil
  then show ?case by simp
next
  case (Cons p ps)
  show ?case
  proof (cases i)
    case 0
    then show ?thesis using Cons.prems by simp
  next
    case (Suc k)
    have p: "\<exists>u. snd p = Inr u" using Cons.prems(3) Suc by (metis nth_Cons_0 zero_less_Suc)
    have "\<forall>j<k. \<exists>u. snd (ps ! j) = Inr u"
      using Cons.prems(3) Suc by (metis Suc_less_eq nth_Cons_Suc)
    then have "run_stages ps = (concat (map fst (take (Suc k) ps)), Some e)"
      using Cons.IH[of k] Cons.prems(1,2) Suc by simp
    then show ?thesis using p Suc by auto
  qed
qed

lemma run_stages_Some:
  "snd (run_stages ps) = Some e \<Longrightarrow>
     \<exists>i<length ps. snd (ps ! i) = Inl e \<and> (\<forall>j<i. \<exists>u. snd (ps ! j) = Inr u)"
proof (induction ps)
  case Nil
  then show ?case by simp
next
  case (Cons p ps)
  show ?case
  proof (cases "snd p")
    case (Inl x)
    then have "x = e" using Cons.prems by simp
    then show ?thesis using Inl by (intro exI[of _ 0]) simp
  next
    case (Inr u)
    then have "snd (run_stages ps) = Some e" using Cons.prems by simp
    then obtain i where i: "i < length ps" "snd (ps ! i) = Inl e"
      "\<forall>j<i. \<exists>u. snd (ps ! j) = Inr u"
      using Cons.IH by blast
    have "\<forall>j<Suc i. \<exists>u. snd ((p # ps) ! j) = Inr u"
      using i(3) Inr by (auto simp: less_Suc_eq_0_disj)
    then show ?thesis using i(1,2) by (intro exI[of _ "Suc i"]) simp
  qed
qed

lemma run_stages_None:
  "snd (run_stages ps) = None \<longleftrightarrow> (\<forall>p \<in> set ps. \<exists>u. snd p = Inr u)"
  by (induction ps) (auto split: sum.splits)

lemma run_trace:
  "run env self =
     (fst (run_stages (stages env self)) @ [Done (snd (run_stages (stages env self)))], Inr ())"
  by (cases "discover env self"; cases "getAllDevices env";
      cases "uploadImageFile env (imageUrl self) (imageName self) ''/api/upload/file''";
      cases "dispatch env self")
     (auto simp: run_def stages_def then_p_def catch_p_def job_done_def call_def
           split: sum.splits)

lemma discover_events:
  "ev \<in> set (fst (discover env self)) \<Longrightarrow> \<not> is_Done ev \<and> \<not> is_update ev \<and> \<not> is_reset ev"
  by (auto simp: discover_def split: sum.splits)

lemma updateBmc_events:
  "ev \<in> set (fst (updateBmc env self n m p)) \<Longrightarrow> \<not> is_Done ev"
  by (auto simp: updateBmc_def Let_def then_p_def call_def split: sum.splits if_splits)

lemma updateSpi_events:
  "ev \<in> set (fst (updateSpi env self n m p)) \<Longrightarrow> \<not> is_Done ev"
  by (auto simp: updateSpi_def Let_def then_p_def call_def check_reset_flag_eq
      split: sum.splits if_splits)

lemma dispatch_events:
  "ev \<in> set (fst (dispatch env self)) \<Longrightarrow> \<not> is_Done ev"
  using updateBmc_events updateSpi_events
  by (auto simp: dispatch_def Let_def split: if_splits)

lemma stage_events:
  "p \<in> set (stages env self) \<Longrightarrow> ev \<in> set (fst p) \<Longrightarrow> \<not> is_Done ev"
  using discover_events dispatch_events
  by (auto simp: stages_def call_def)

lemma run_stages_events:
  "(\<forall>p \<in> set ps. \<forall>ev \<in> set (fst p). \<not> is_Done ev) \<Longrightarrow>
     \<forall>ev \<in> set (fst (run_stages ps)). \<not> is_Done ev"
  by (induction ps) (auto split: sum.splits)

lemma run_one_Done:
  "filter is_Done (fst (run env self)) = [Done (snd (run_stages (stages env self)))]"
proof -
  have "\<forall>ev \<in> set (fst (run_stages (stages env self))). \<not> is_Done ev"
    by (rule run_stages_events) (use stage_events in blast)
  then have "filter is_Done (fst (run_stages (stages env self))) = []"
    by (simp add: filter_empty_conv)
  then show ?thesis by (simp add: run_trace)
qed


text \<open>The chain of \<open>run\<close> against the stages written out one by one.\<close>

lemma run_stages_append:
  "run_stages (ps @ qs) =
     (case snd (run_stages ps) of
        Some e \<Rightarrow> run_stages ps
      | None \<Rightarrow> (fst (run_stages ps) @ fst (run_stages qs), snd (run_stages qs)))"
  by (induction ps) (auto split: sum.splits option.splits)

lemma run_stages_tail:
  "run_stages qs = run_stages qs' \<Longrightarrow> run_stages (ps @ qs) = run_stages (ps @ qs')"
  by (simp add: run_stages_append split: option.splits)

lemma discovery_stages_run:
  "run_stages (discovery_stages env self @ qs) = run_stages (discover env self # qs)"
  by (auto simp: discovery_stages_def discover_def getNodeIp_def assertion_def Let_def
      split: sum.splits)

lemma bmc_stages_run:
  "run_stages (bmc_stages env self) =
     run_stages [updateBmc env self (imageName self) (imageMode self) (diagImagePath self)]"
  by (auto simp: bmc_stages_def updateBmc_def then_p_def call_def reset_stages_def
      unit_outcome_def assertion_def Let_def split: sum.splits)

lemma spi_stages_run:
  "run_stages (spi_stages env self) =
     run_stages [updateSpi env self (imageName self) (imageMode self) (diagImagePath self)]"
  by (auto simp: spi_stages_def updateSpi_def then_p_def call_def reset_stages_def
      unit_outcome_def assertion_def validating_stage_def check_reset_flag_eq Let_def
      split: sum.splits)

lemma update_stages_run:
  "run_stages (update_stages env self) = run_stages [dispatch env self]"
  by (simp add: update_stages_def dispatch_def Let_def bmc_stages_run spi_stages_run)

lemma all_stages_run:
  "run_stages (all_stages env self) = run_stages (stages env self)"
proof -
  let ?mid = "[([GetAllDevices], getAllDevices env),
        ([UploadImageFile (imageUrl self) (imageName self) ''/api/upload/file''],
         uploadImageFile env (imageUrl self) (imageName self) ''/api/upload/file'')]"
  have "run_stages (?mid @ update_stages env self) = run_stages (?mid @ [dispatch env self])"
    using update_stages_run by (rule run_stages_tail)
  then have "run_stages (discovery_stages env self @ ?mid @ update_stages env self)
               = run_stages (discovery_stages env self @ ?mid @ [dispatch env self])"
    by (rule run_stages_tail)
  also have "\<dots> = run_stages (discover env self # ?mid @ [dispatch env self])"
    by (rule discovery_stages_run)
  finally show ?thesis by (simp add: all_stages_def stages_def call_def)
qed

text \<open>
  C2. Every run ends with exactly one \<open>Done\<close> event, which is its last event. The
  stages are the address check, the creation of the tool, the discovery, the
  enumeration, the upload, the method lookup with the mode check, the firmware update,
  on the SPI path the check of the body, and the reset unless \<open>skipReset\<close> is set. The
  trace of the run is the events of these stages taken in order up to and including
  the first rejected one, followed by \<open>Done\<close>. The argument of \<open>Done\<close> is empty exactly
  when all stages resolved, and otherwise is the rejection of the first rejected stage,
  no event of a later stage being in the trace.
\<close>

theorem run_completes_once:
  "fst (run env self) =
     fst (run_stages (all_stages env self)) @ [Done (snd (run_stages (all_stages env self)))] \<and>
   filter is_Done (fst (run env self)) = [Done (snd (run_stages (all_stages env self)))] \<and>
   (snd (run_stages (all_stages env self)) = None \<longleftrightarrow>
      (\<forall>p \<in> set (all_stages env self). \<exists>u. snd p = Inr u)) \<and>
   ((\<forall>p \<in> set (all_stages env self). \<exists>u. snd p = Inr u) \<longrightarrow>
      fst (run_stages (all_stages env self)) = concat (map fst (all_stages env self))) \<and>
   (\<forall>e. snd (run_stages (all_stages env self)) = Some e \<longrightarrow>
      (\<exists>i<length (all_stages env self).
         snd (all_stages env self ! i) = Inl e \<and>
         (\<forall>j<i. \<exists>u. snd (all_stages env self ! j) = Inr u) \<and>
         fst (run_stages (all_stages env self))
           = concat (map fst (take (Suc i) (all_stages env self)))))"
proof (intro conjI allI impI)
  let ?ps = "all_stages env self"
  show "fst (run env self) = fst (run_stages ?ps) @ [Done (snd (run_stages ?ps))]"
    by (simp add: run_trace all_stages_run)
  show "filter is_Done (fst (run env self)) = [Done (snd (run_stages ?ps))]"
    by (simp add: run_one_Done all_stages_run)
  show "snd (run_stages ?ps) = None \<longleftrightarrow> (\<forall>p \<in> set ?ps. \<exists>u. snd p = Inr u)"
    by (rule run_stages_None)
  show "fst (run_stages ?ps) = concat (map fst ?ps)"
    if "\<forall>p \<in> set ?ps. \<exists>u. snd p = Inr u"
    using run_stages_ok[OF that] by simp
  show "\<exists>i<length ?ps. snd (?ps ! i) = Inl e \<and> (\<forall>j<i. \<exists>u. snd (?ps ! j) = Inr u) \<and>
          fst (run_stages ?ps) = concat (map fst (take (Suc i) ?ps))"
    if h: "snd (run_stages ?ps) = Some e" for e
  proof -
    obtain i where i: "i < length ?ps" "snd (?ps ! i) = Inl e"
      "\<forall>j<i. \<exists>u. snd (?ps ! j) = Inr u"
      using run_stages_Some[OF h] by blast
    have "fst (run_stages ?ps) = concat (map fst (take (Suc i) ?ps))"
      using run_stages_fail[OF i] by simp
    with i show ?thesis by blast
  qed
qed

lemma example_all_stages:
  "all_stages example_env example_job =
     [([], Inr ()),
      ([NewDiagTool ''10.1.1.3'' ''node1''], Inr ()),
      ([RetrySyncDiscovery 5000 6], Inr ()),
      ([GetAllDevices], Inr ()),
      ([UploadImageFile ''http://10.1.1.1/bios.bin'' ''bios.bin'' ''/api/upload/file''], Inr ()),
      ([], Inr ()),
      ([UpdateFirmware ''spi'' ''bios.bin'' (ModeString ''1'') ''/uploads''], Inr ()),
      ([], Inr ()),
      ([WarmReset False], Inr ())]"
  by code_simp

lemma upload_fail_all_stages:
  "take 5 (all_stages upload_fail_env example_job) =
     [([], Inr ()),
      ([NewDiagTool ''10.1.1.3'' ''node1''], Inr ()),
      ([RetrySyncDiscovery 5000 6], Inr ()),
      ([GetAllDevices], Inr ()),
      ([UploadImageFile ''http://10.1.1.1/bios.bin'' ''bios.bin'' ''/api/upload/file''],
       Inl (Rejected ''upload failed''))]"
  by code_simp

lemma update_fail_all_stages:
  "all_stages update_fail_env bmc_job =
     [([], Inr ()),
      ([NewDiagTool ''10.1.1.3'' ''node1''], Inr ()),
      ([RetrySyncDiscovery 5000 6], Inr ()),
      ([GetAllDevices], Inr ()),
      ([UploadImageFile ''http://10.1.1.1/bios.bin'' ''bmc.bin'' ''/api/upload/file''], Inr ()),
      ([], Inr ()),
      ([UpdateFirmware ''bmc'' ''bmc.bin'' (ModeString ''0x142'') ''/uploads''],
       Inl (Rejected ''update failed'')),
      ([BmcReset False], Inr ())]"
  by code_simp

lemma reset_fail_all_stages:
  "all_stages reset_fail_env bmc_job =
     [([], Inr ()),
      ([NewDiagTool ''10.1.1.3'' ''node1''], Inr ()),
      ([RetrySyncDiscovery 5000 6], Inr ()),
      ([GetAllDevices], Inr ()),
      ([UploadImageFile ''http://10.1.1.1/bios.bin'' ''bmc.bin'' ''/api/upload/file''], Inr ()),
      ([], Inr ()),
      ([UpdateFirmware ''bmc'' ''bmc.bin'' (ModeString ''0x142'') ''/uploads''], Inr ()),
      ([BmcReset False], Inl (Rejected ''reset failed''))]"
  by code_simp

theorem run_completes_once_witness:
  "map snd (all_stages example_env example_job)
     = [Inr (), Inr (), Inr (), Inr (), Inr (), Inr (), Inr (), Inr (), Inr ()] \<and>
   fst (run example_env example_job) =
     [NewDiagTool ''10.1.1.3'' ''node1'', RetrySyncDiscovery 5000 6, GetAllDevices,
      UploadImageFile ''http://10.1.1.1/bios.bin'' ''bios.bin'' ''/api/upload/file'',
      UpdateFirmware ''spi'' ''bios.bin'' (ModeString ''1'') ''/uploads'', WarmReset False,
      Done None] \<and>
   snd (all_stages upload_fail_env example_job ! 4) = Inl (Rejected ''upload failed'') \<and>
   fst (run upload_fail_env example_job) =
     [NewDiagTool ''10.1.1.3'' ''node1'', RetrySyncDiscovery 5000 6, GetAllDevices,
      UploadImageFile ''http://10.1.1.1/bios.bin'' ''bios.bin'' ''/api/upload/file'',
      Done (Some (Rejected ''upload failed''))] \<and>
   snd (all_stages update_fail_env bmc_job ! 6) = Inl (Rejected ''update failed'') \<and>
   fst (run update_fail_env bmc_job) =
     [NewDiagTool ''10.1.1.3'' ''node1'', RetrySyncDiscovery 5000 6, GetAllDevices,
      UploadImageFile ''http://10.1.1.1/bios.bin'' ''bmc.bin'' ''/api/upload/file'',
      UpdateFirmware ''bmc'' ''bmc.bin'' (ModeString ''0x142'') ''/uploads'',
      Done (Some (Rejected ''update failed''))] \<and>
   snd (all_stages reset_fail_env bmc_job ! 7) = Inl (Rejected ''reset failed'') \<and>
   fst (run reset_fail_env bmc_job) =
     [NewDiagTool ''10.1.1.3'' ''node1'', RetrySyncDiscovery 5000 6, GetAllDevices,
      UploadImageFile ''http://10.1.1.1/bios.bin'' ''bmc.bin'' ''/api/upload/file'',
      UpdateFirmware ''bmc'' ''bmc.bin'' (ModeString ''0x142'') ''/uploads'', BmcReset False,
      Done (Some (Rejected ''reset failed''))]"
proof -
  have 0: "map snd (all_stages example_env example_job)
     = [Inr (), Inr (), Inr (), Inr (), Inr (), Inr (), Inr (), Inr (), Inr ()]"
    by (simp add: example_all_stages)
  have 1: "fst (run example_env example_job) =
     [NewDiagTool ''10.1.1.3'' ''node1'', RetrySyncDiscovery 5000 6, GetAllDevices,
      UploadImageFile ''http://10.1.1.1/bios.bin'' ''bios.bin'' ''/api/upload/file'',
      UpdateFirmware ''spi'' ''bios.bin'' (ModeString ''1'') ''/uploads'', WarmReset False,
      Done None]"
    using run_completes_once[of example_env example_job]
    by (simp add: example_all_stages)
  have len: "length (all_stages upload_fail_env example_job) \<ge> 5"
    by (simp add: all_stages_def discovery_stages_def)
  have u4: "snd (all_stages upload_fail_env example_job ! 4) = Inl (Rejected ''upload failed'')"
    and u03: "\<forall>j<4. \<exists>u. snd (all_stages upload_fail_env example_job ! j) = Inr u"
    using upload_fail_all_stages len
    by (auto simp: all_stages_def discovery_stages_def less_Suc_eq numeral_eq_Suc)
  have rs: "run_stages (all_stages upload_fail_env example_job) =
      (concat (map fst (take 5 (all_stages upload_fail_env example_job))),
       Some (Rejected ''upload failed''))"
    using run_stages_fail[of 4 "all_stages upload_fail_env example_job", OF _ u4 u03] len
    by (simp add: eval_nat_numeral)
  have 2: "fst (run upload_fail_env example_job) =
     [NewDiagTool ''10.1.1.3'' ''node1'', RetrySyncDiscovery 5000 6, GetAllDevices,
      UploadImageFile ''http://10.1.1.1/bios.bin'' ''bios.bin'' ''/api/upload/file'',
      Done (Some (Rejected ''upload failed''))]"
    using run_completes_once[of upload_fail_env example_job]
    by (simp add: rs upload_fail_all_stages)
  have u6: "snd (all_stages update_fail_env bmc_job ! 6) = Inl (Rejected ''update failed'')"
    by (simp add: update_fail_all_stages)
  have 3: "fst (run update_fail_env bmc_job) =
     [NewDiagTool ''10.1.1.3'' ''node1'', RetrySyncDiscovery 5000 6, GetAllDevices,
      UploadImageFile ''http://10.1.1.1/bios.bin'' ''bmc.bin'' ''/api/upload/file'',
      UpdateFirmware ''bmc'' ''bmc.bin'' (ModeString ''0x142'') ''/uploads'',
      Done (Some (Rejected ''update failed''))]"
    using run_completes_once[of update_fail_env bmc_job]
    by (simp add: update_fail_all_stages)
  have r7: "snd (all_stages reset_fail_env bmc_job ! 7) = Inl (Rejected ''reset failed'')"
    by (simp add: reset_fail_all_stages)
  have 4: "fst (run reset_fail_env bmc_job) =
     [NewDiagTool ''10.1.1.3'' ''node1'', RetrySyncDiscovery 5000 6, GetAllDevices,
      UploadImageFile ''http://10.1.1.1/bios.bin'' ''bmc.bin'' ''/api/upload/file'',
      UpdateFirmware ''bmc'' ''bmc.bin'' (ModeString ''0x142'') ''/uploads'', BmcReset False,
      Done (Some (Rejected ''reset failed''))]"
    using run_completes_once[of reset_fail_env bmc_job]
    by (simp add: reset_fail_all_stages)
  show ?thesis using 0 1 u4 2 u6 3 r7 4 by blast
qed


subsection \<open>The node address\<close>

lemma discover_invalid_ip:
  "\<not> isIP env (nodeIp (ctx self)) \<Longrightarrow> discover env self = ([], Inl AssertionError)"
  by (simp add: discover_def getNodeIp_def)

lemma run_invalid_ip:
  "\<not> isIP env (nodeIp (ctx self)) \<Longrightarrow> run env self = ([Done (Some AssertionError)], Inr ())"
  by (simp add: run_trace stages_def discover_invalid_ip)

text \<open>
  C6 (as amended). The constructor does not look at the IP: for a context whose
  \<open>nodeIp\<close> is not a well-formed IPv4 address it still gives a job. The run of that job
  fails at once: \<open>getNodeIp\<close> throws the assertion error, no \<open>DiagTool\<close> is created, no
  discovery is attempted, and the only event is \<open>Done\<close> with that error.
\<close>

theorem malformed_ip_fails_run:
  "\<not> isIP env (nodeIp cx) \<longrightarrow>
     (\<exists>self. DiagUpdateFirmware opts cx = Inr self \<and> nodeIp (ctx self) = nodeIp cx \<and>
             getNodeIp env self = Inl AssertionError \<and>
             run env self = ([Done (Some AssertionError)], Inr ()))"
proof
  assume bad: "\<not> isIP env (nodeIp cx)"
  obtain self where c: "DiagUpdateFirmware opts cx = Inr self"
    by (simp add: DiagUpdateFirmware_def)
  have ip: "ctx self = cx" using constructed_fields(5)[OF c] .
  have "getNodeIp env self = Inl AssertionError"
    using bad ip by (simp add: getNodeIp_def)
  moreover have "run env self = ([Done (Some AssertionError)], Inr ())"
    using bad ip by (intro run_invalid_ip) simp
  ultimately show "\<exists>self. DiagUpdateFirmware opts cx = Inr self \<and> nodeIp (ctx self) = nodeIp cx \<and>
             getNodeIp env self = Inl AssertionError \<and>
             run env self = ([Done (Some AssertionError)], Inr ())"
    using c ip by auto
qed

lemma bad_context_ip: "\<not> isIP example_env (nodeIp bad_context)"
  by code_simp

theorem malformed_ip_fails_run_witness:
  "\<not> isIP example_env (nodeIp bad_context) \<and>
   run example_env (projr (DiagUpdateFirmware example_options bad_context))
     = ([Done (Some AssertionError)], Inr ())"
proof -
  obtain self where s: "DiagUpdateFirmware example_options bad_context = Inr self"
    and r: "run example_env self = ([Done (Some AssertionError)], Inr ())"
    using malformed_ip_fails_run[of example_env bad_context example_options] bad_context_ip
    by blast
  show ?thesis using bad_context_ip s r by simp
qed

text \<open>
  Where the code leaves the wording of C6: construction succeeds for the malformed
  address \<open>10.1.1.300\<close>, which the job then holds.
\<close>

theorem construction_does_not_validate_ip:
  "\<not> isIP example_env (nodeIp bad_context) \<and>
   \<not> isl (DiagUpdateFirmware example_options bad_context) \<and>
   nodeIp (ctx (projr (DiagUpdateFirmware example_options bad_context))) = ''10.1.1.300''"
  by code_simp


subsection \<open>The method lookup\<close>

lemma dispatch_no_method:
  assumes "method_name env self \<notin> {Some ''updateBmc'', Some ''updateSpi''}"
  shows "dispatch env self = ([], Inl TypeError)"
  using assms by (simp add: dispatch_def Let_def)

lemma update_stages_no_method:
  assumes "method_name env self \<notin> {Some ''updateBmc'', Some ''updateSpi''}"
  shows "update_stages env self = [([], Inl TypeError)]"
  using assms by (simp add: update_stages_def)

lemma run_stages_subset:
  "ev \<in> set (fst (run_stages ps)) \<Longrightarrow> \<exists>p \<in> set ps. ev \<in> set (fst p)"
  by (induction ps) (auto split: sum.splits)

text \<open>
  C9 (as amended). Construction succeeds for every \<open>firmwareType\<close> and keeps it as it
  is. When \<open>'update' + _.capitalize(firmwareType)\<close> is neither \<open>updateBmc\<close> nor
  \<open>updateSpi\<close>, the method lookup gives no function: the dispatch throws a
  \<open>TypeError\<close>, the run ends with a single \<open>Done\<close> that carries a failure, no firmware
  update and no reset is called, and the failure is that \<open>TypeError\<close> when the address
  check, the creation of the tool, the discovery, the enumeration and the upload
  resolved.
\<close>

theorem unknown_firmwareType_fails_run:
  "(\<exists>job. DiagUpdateFirmware opts cx = Inr job \<and> firmwareType job = opt_firmwareType opts) \<and>
   (method_name env self \<notin> {Some ''updateBmc'', Some ''updateSpi''} \<longrightarrow>
      dispatch env self = ([], Inl TypeError) \<and>
      (\<exists>e. snd (run_stages (all_stages env self)) = Some e \<and>
           fst (run env self) = fst (run_stages (all_stages env self)) @ [Done (Some e)] \<and>
           filter is_Done (fst (run env self)) = [Done (Some e)]) \<and>
      (\<forall>ev \<in> set (fst (run env self)). \<not> is_update ev \<and> \<not> is_reset ev) \<and>
      ((\<forall>p \<in> set (take 5 (all_stages env self)). \<exists>u. snd p = Inr u) \<longrightarrow>
         fst (run env self) =
           concat (map fst (take 5 (all_stages env self))) @ [Done (Some TypeError)]))"
proof (intro conjI impI)
  show "\<exists>job. DiagUpdateFirmware opts cx = Inr job \<and> firmwareType job = opt_firmwareType opts"
    by (simp add: DiagUpdateFirmware_def)
next
  let ?ps = "all_stages env self"
  assume m: "method_name env self \<notin> {Some ''updateBmc'', Some ''updateSpi''}"
  show d: "dispatch env self = ([], Inl TypeError)"
    using m by (rule dispatch_no_method)
  note us = update_stages_no_method[OF m]
  have len: "length ?ps = 6" and last: "?ps ! 5 = ([], Inl TypeError)"
    and t5: "take 5 ?ps = discovery_stages env self
        @ [([GetAllDevices], getAllDevices env),
           ([UploadImageFile (imageUrl self) (imageName self) ''/api/upload/file''],
            uploadImageFile env (imageUrl self) (imageName self) ''/api/upload/file'')]"
    by (simp_all add: all_stages_def discovery_stages_def us)
  have "\<not> (\<forall>p \<in> set ?ps. \<exists>u. snd p = Inr u)"
    by (auto simp: all_stages_def us)
  then obtain e where e: "snd (run_stages ?ps) = Some e"
    using run_stages_None[of ?ps] by (cases "snd (run_stages ?ps)") auto
  note tr = run_trace[of env self, folded all_stages_run]
  show "\<exists>e. snd (run_stages ?ps) = Some e \<and>
           fst (run env self) = fst (run_stages ?ps) @ [Done (Some e)] \<and>
           filter is_Done (fst (run env self)) = [Done (Some e)]"
    using e run_one_Done[of env self, folded all_stages_run] by (auto simp: tr)
  show "\<forall>ev \<in> set (fst (run env self)). \<not> is_update ev \<and> \<not> is_reset ev"
  proof
    fix ev assume "ev \<in> set (fst (run env self))"
    then consider "ev = Done (Some e)" | "ev \<in> set (fst (run_stages ?ps))"
      using e by (auto simp: tr)
    then show "\<not> is_update ev \<and> \<not> is_reset ev"
    proof cases
      case 1
      then show ?thesis by simp
    next
      case 2
      then obtain p where "p \<in> set ?ps" "ev \<in> set (fst p)"
        using run_stages_subset by blast
      then show ?thesis
        by (auto simp: all_stages_def discovery_stages_def assertion_def us)
    qed
  qed
  show "fst (run env self) = concat (map fst (take 5 ?ps)) @ [Done (Some TypeError)]"
    if ok: "\<forall>p \<in> set (take 5 ?ps). \<exists>u. snd p = Inr u"
  proof -
    have "\<forall>j<5. \<exists>u. snd (?ps ! j) = Inr u"
    proof (intro allI impI)
      fix j :: nat assume "j < 5"
      then have j: "j < length (take 5 ?ps)" using len by simp
      then have "take 5 ?ps ! j \<in> set (take 5 ?ps)" by (rule nth_mem)
      moreover have "take 5 ?ps ! j = ?ps ! j" using \<open>j < 5\<close> by simp
      ultimately show "\<exists>u. snd (?ps ! j) = Inr u" using ok by metis
    qed
    then have "run_stages ?ps = (concat (map fst (take (Suc 5) ?ps)), Some TypeError)"
      using run_stages_fail[of 5 ?ps TypeError] len last by simp
    moreover have "take (Suc 5) ?ps = take 5 ?ps @ [([], Inl TypeError)]"
      by (simp add: all_stages_def discovery_stages_def us)
    then have "concat (map fst (take (Suc 5) ?ps)) = concat (map fst (take 5 ?ps))"
      by simp
    ultimately show ?thesis by (simp add: tr)
  qed
qed

lemma bios_all_stages:
  "all_stages example_env bios_job =
     [([], Inr ()),
      ([NewDiagTool ''10.1.1.3'' ''node1''], Inr ()),
      ([RetrySyncDiscovery 5000 6], Inr ()),
      ([GetAllDevices], Inr ()),
      ([UploadImageFile ''http://10.1.1.1/bios.bin'' ''bios.bin'' ''/api/upload/file''], Inr ()),
      ([], Inl TypeError)]"
  by code_simp

theorem unknown_firmwareType_fails_run_witness:
  "method_name example_env bios_job = Some ''updateBios'' \<and>
   map snd (take 5 (all_stages example_env bios_job)) = [Inr (), Inr (), Inr (), Inr (), Inr ()] \<and>
   fst (run example_env bios_job) =
     [NewDiagTool ''10.1.1.3'' ''node1'', RetrySyncDiscovery 5000 6, GetAllDevices,
      UploadImageFile ''http://10.1.1.1/bios.bin'' ''bios.bin'' ''/api/upload/file'',
      Done (Some TypeError)]"
proof -
  have n: "method_name example_env bios_job = Some ''updateBios''"
    by code_simp
  then have m: "method_name example_env bios_job \<notin> {Some ''updateBmc'', Some ''updateSpi''}"
    by simp
  have ok: "\<forall>p \<in> set (take 5 (all_stages example_env bios_job)). \<exists>u. snd p = Inr u"
    by (simp add: bios_all_stages)
  have "fst (run example_env bios_job) =
     concat (map fst (take 5 (all_stages example_env bios_job))) @ [Done (Some TypeError)]"
    using unknown_firmwareType_fails_run[where env = example_env and self = bios_job] m ok
    by blast
  then show ?thesis using n by (simp add: bios_all_stages)
qed

text \<open>
  Where the code leaves the wording of C9: \<open>Spi\<close> is outside \<open>{bmc, spi}\<close>, the lookup
  finds \<open>updateSpi\<close> all the same, with either version of the library, and the job
  completes without an error.
\<close>

theorem capitalized_firmwareType_is_dispatched:
  "opt_firmwareType Spi_options \<notin> {''bmc'', ''spi''} \<and>
   DiagUpdateFirmware Spi_options example_context = Inr Spi_job \<and>
   run example_env Spi_job =
     ([NewDiagTool ''10.1.1.3'' ''node1'', RetrySyncDiscovery 5000 6, GetAllDevices,
       UploadImageFile ''http://10.1.1.1/bios.bin'' ''bios.bin'' ''/api/upload/file'',
       UpdateFirmware ''spi'' ''bios.bin'' (ModeString ''1'') ''/uploads'', WarmReset False,
       Done None], Inr ()) \<and>
   run (example_env\<lparr>lodash := Lodash4\<rparr>) Spi_job = run example_env Spi_job"
  by code_simp


subsection \<open>Discovery\<close>

lemma discover_valid:
  assumes "isIP env (nodeIp (ctx self))"
    and "DiagTool env (nodeIp (ctx self)) (nodeId self) = Inr u"
  shows "discover env self =
           ([NewDiagTool (nodeIp (ctx self)) (nodeId self),
             RetrySyncDiscovery (retryDuration self) (retryCount self)],
            retrySyncDiscovery env (retryDuration self) (retryCount self))"
  using assms by (simp add: discover_def getNodeIp_def)

lemma retry_from_fails:
  "snd (retry_from attempt delay i k) = Inl e \<longleftrightarrow>
     e = DiscoveryExhaustedError \<and> (\<forall>j<k. \<not> attempt (i + j))"
proof (induction k arbitrary: i)
  case 0
  show ?case by auto
next
  case (Suc k)
  show ?case
  proof (cases "attempt i")
    case True
    then have "\<not> (\<forall>j<Suc k. \<not> attempt (i + j))" by (auto intro: exI[of _ 0])
    with True show ?thesis by simp
  next
    case False
    show ?thesis
    proof (cases "k = 0")
      case True
      with False show ?thesis by auto
    next
      case k: False
      have "(\<forall>j<Suc k. \<not> attempt (i + j)) \<longleftrightarrow> (\<forall>j<k. \<not> attempt (Suc i + j))"
        using False by (auto simp: less_Suc_eq_0_disj)
      with False k Suc.IH[of "Suc i"] show ?thesis by simp
    qed
  qed
qed

lemma retry_six_fail:
  assumes "\<forall>j<6. \<not> attempt j"
  shows "retry_from attempt delay 0 6 =
           ([Attempt 0, Delay delay, Attempt 1, Delay delay, Attempt 2, Delay delay,
             Attempt 3, Delay delay, Attempt 4, Delay delay, Attempt 5],
            Inl DiscoveryExhaustedError)"
proof -
  have a: "\<not> attempt 0" "\<not> attempt (Suc 0)" "\<not> attempt (Suc (Suc 0))"
    "\<not> attempt (Suc (Suc (Suc 0)))" "\<not> attempt (Suc (Suc (Suc (Suc 0))))"
    "\<not> attempt (Suc (Suc (Suc (Suc (Suc 0)))))"
    using assms by (simp_all add: eval_nat_numeral)
  have six: "(6::nat) = Suc (Suc (Suc (Suc (Suc (Suc 0)))))" by simp
  show ?thesis unfolding six by (simp add: a eval_nat_numeral)
qed

text \<open>
  C7. For a job the constructor built, with a valid IP, the discovery step creates the
  tool for that address and calls \<open>retrySyncDiscovery(5000, 6)\<close>, and its outcome is the
  outcome of that call. With \<open>retrySyncDiscovery\<close> as the specification describes it,
  the call is rejected exactly when all six attempts fail, the rejection is the
  discovery-timeout error, the six attempts are separated by five delays of 5000 ms,
  and the job then fails with that error.
\<close>

theorem discovery_parameters:
  assumes "DiagUpdateFirmware opts cx = Inr self"
    and "isIP env (nodeIp cx)"
    and "DiagTool env (nodeIp cx) (target cx) = Inr ()"
  shows "discover env self =
           ([NewDiagTool (nodeIp cx) (target cx), RetrySyncDiscovery 5000 6],
            retrySyncDiscovery env 5000 6) \<and>
         (\<forall>e. snd (spec_retrySyncDiscovery attempt 5000 6) = Inl e \<longleftrightarrow>
               e = DiscoveryExhaustedError \<and> (\<forall>j<6. \<not> attempt j)) \<and>
         ((\<forall>j<6. \<not> attempt j) \<longrightarrow>
            spec_retrySyncDiscovery attempt 5000 6 =
              ([Attempt 0, Delay 5000, Attempt 1, Delay 5000, Attempt 2, Delay 5000,
                Attempt 3, Delay 5000, Attempt 4, Delay 5000, Attempt 5],
               Inl DiscoveryExhaustedError)) \<and>
         (retrySyncDiscovery env
            = (\<lambda>delay retries. snd (spec_retrySyncDiscovery attempt delay retries)) \<and>
          (\<forall>j<6. \<not> attempt j) \<longrightarrow>
            run env self =
              ([NewDiagTool (nodeIp cx) (target cx), RetrySyncDiscovery 5000 6,
                Done (Some DiscoveryExhaustedError)],
               Inr ()))"
proof (intro conjI allI impI)
  note f = constructed_fields[OF assms(1)]
  show d: "discover env self =
           ([NewDiagTool (nodeIp cx) (target cx), RetrySyncDiscovery 5000 6],
            retrySyncDiscovery env 5000 6)"
    using discover_valid[of env self "()"] assms(2,3) by (simp add: f)
  show "snd (spec_retrySyncDiscovery attempt 5000 6) = Inl e \<longleftrightarrow>
          e = DiscoveryExhaustedError \<and> (\<forall>j<6. \<not> attempt j)" for e
    using retry_from_fails[of attempt 5000 0 6 e] by (simp add: spec_retrySyncDiscovery_def)
  show "spec_retrySyncDiscovery attempt 5000 6 =
              ([Attempt 0, Delay 5000, Attempt 1, Delay 5000, Attempt 2, Delay 5000,
                Attempt 3, Delay 5000, Attempt 4, Delay 5000, Attempt 5],
               Inl DiscoveryExhaustedError)"
    if "\<forall>j<6. \<not> attempt j"
    using retry_six_fail[OF that] by (simp add: spec_retrySyncDiscovery_def)
  show "run env self =
              ([NewDiagTool (nodeIp cx) (target cx), RetrySyncDiscovery 5000 6,
                Done (Some DiscoveryExhaustedError)],
               Inr ())"
    if h: "retrySyncDiscovery env
            = (\<lambda>delay retries. snd (spec_retrySyncDiscovery attempt delay retries)) \<and>
          (\<forall>j<6. \<not> attempt j)"
  proof -
    have "retrySyncDiscovery env 5000 6 = Inl DiscoveryExhaustedError"
      using h retry_six_fail[of attempt 5000] by (simp add: spec_retrySyncDiscovery_def)
    then show ?thesis by (simp add: run_trace stages_def d)
  qed
qed

theorem discovery_parameters_witness:
  "DiagUpdateFirmware example_options example_context = Inr example_job \<and>
   isIP unreachable_env (nodeIp example_context) \<and>
   DiagTool unreachable_env (nodeIp example_context) (target example_context) = Inr () \<and>
   discover unreachable_env example_job =
     ([NewDiagTool ''10.1.1.3'' ''node1'', RetrySyncDiscovery 5000 6],
      Inl DiscoveryExhaustedError) \<and>
   length (filter (\<lambda>ev. ev = Delay 5000) (fst (spec_retrySyncDiscovery (\<lambda>i. False) 5000 6))) = 5 \<and>
   run unreachable_env example_job =
     ([NewDiagTool ''10.1.1.3'' ''node1'', RetrySyncDiscovery 5000 6,
       Done (Some DiscoveryExhaustedError)],
      Inr ())"
proof -
  have ip: "isIP unreachable_env (nodeIp example_context)" by code_simp
  have dt: "DiagTool unreachable_env (nodeIp example_context) (target example_context) = Inr ()"
    by (simp add: unreachable_env_def example_env_def)
  have r: "retrySyncDiscovery unreachable_env
            = (\<lambda>delay retries. snd (spec_retrySyncDiscovery (\<lambda>i. False) delay retries))"
    by (simp add: unreachable_env_def example_env_def)
  note t = discovery_parameters[OF example_job_constructed ip dt, of "\<lambda>i. False"]
  have s: "spec_retrySyncDiscovery (\<lambda>i. False) 5000 6 =
              ([Attempt 0, Delay 5000, Attempt 1, Delay 5000, Attempt 2, Delay 5000,
                Attempt 3, Delay 5000, Attempt 4, Delay 5000, Attempt 5],
               Inl DiscoveryExhaustedError)"
    using t by simp
  have d: "discover unreachable_env example_job =
     ([NewDiagTool ''10.1.1.3'' ''node1'', RetrySyncDiscovery 5000 6],
      Inl DiscoveryExhaustedError)"
    using t r s by (simp add: example_context_def)
  have u: "run unreachable_env example_job =
     ([NewDiagTool ''10.1.1.3'' ''node1'', RetrySyncDiscovery 5000 6,
       Done (Some DiscoveryExhaustedError)],
      Inr ())"
    using t r by (simp add: example_context_def)
  show ?thesis using example_job_constructed ip dt d u by (simp add: s)
qed


subsection \<open>The reset step\<close>

lemma js_or_False: "js_or v (JBool False) = JBool False \<longleftrightarrow> \<not> truthy v"
  by (cases v) (auto simp: js_or_def)

lemma truthy_js_or: "truthy (js_or v (JBool False)) \<longleftrightarrow> truthy v"
  by (simp add: js_or_def)

lemma capitalize_known:
  "capitalize env ''bmc'' = Some ''Bmc''" "capitalize env ''spi'' = Some ''Spi''"
proof -
  have a: "list_all is_ascii ''bmc''" "list_all is_ascii ''spi''"
    by (simp_all add: is_ascii_def)
  have b: "ascii_capitalize Lodash3 ''bmc'' = ''Bmc''" "ascii_capitalize Lodash4 ''bmc'' = ''Bmc''"
    "ascii_capitalize Lodash3 ''spi'' = ''Spi''" "ascii_capitalize Lodash4 ''spi'' = ''Spi''"
    by code_simp+
  show "capitalize env ''bmc'' = Some ''Bmc''" "capitalize env ''spi'' = Some ''Spi''"
    unfolding capitalize_def using a b by (cases "lodash env"; simp)+
qed

lemma method_known:
  "firmwareType self = ''bmc'' \<Longrightarrow> method_name env self = Some ''updateBmc''"
  "firmwareType self = ''spi'' \<Longrightarrow> method_name env self = Some ''updateSpi''"
  by (simp_all add: method_name_def capitalize_known)

lemma dispatch_bmc:
  assumes "firmwareType self = ''bmc''"
  shows "dispatch env self =
           updateBmc env self (imageName self) (imageMode self) (diagImagePath self)"
  by (simp add: dispatch_def Let_def method_known(1)[OF assms])

lemma dispatch_spi:
  assumes "firmwareType self = ''spi''"
  shows "dispatch env self =
           updateSpi env self (imageName self) (imageMode self) (diagImagePath self)"
  by (simp add: dispatch_def Let_def method_known(2)[OF assms])

text \<open>
  C8. For a job the constructor built, \<open>skipReset\<close> is \<open>false\<close> exactly when the option
  is absent or falsy. After a firmware update that resolved (and, on the SPI path,
  whose body was accepted) the reset call is made exactly when \<open>skipReset\<close> is
  \<open>false\<close>: \<open>bmcReset(false)\<close> on the BMC path and \<open>warmReset(false)\<close> on the SPI path,
  and the outcome of the update procedure is then the outcome of the reset; otherwise
  no reset call is made and the procedure resolves. A rejected dispatch, so a rejected
  reset, fails the job with that rejection.
\<close>

theorem reset_unless_skipReset:
  assumes "DiagUpdateFirmware opts cx = Inr self"
  shows "(opt_skipReset opts = JUndefined \<longrightarrow> skipReset self = JBool False) \<and>
         (skipReset self = JBool False \<longleftrightarrow> \<not> truthy (opt_skipReset opts)) \<and>
         (isIn (parseBmcMode self mode) [''0x142'', ''0x140'', ''0x144'', ''0x145'', ''0x5f''] \<and>
          updateFirmware env ''bmc'' name (parseBmcMode self mode) path = Inr body \<longrightarrow>
            updateBmc env self name mode path =
              (if skipReset self = JBool False
               then ([UpdateFirmware ''bmc'' name (parseBmcMode self mode) path, BmcReset False],
                     bmcReset env False)
               else ([UpdateFirmware ''bmc'' name (parseBmcMode self mode) path], Inr ()))) \<and>
         (isIn (parseSpiMode self mode) [''0'', ''1'', ''2'', ''3'', ''4'', ''5''] \<and>
          updateFirmware env ''spi'' name (parseSpiMode self mode) path = Inr body \<and>
          reset_flag_expr env body = Inr (JStr reset_prompt) \<longrightarrow>
            updateSpi env self name mode path =
              (if skipReset self = JBool False
               then ([UpdateFirmware ''spi'' name (parseSpiMode self mode) path, WarmReset False],
                     warmReset env False)
               else ([UpdateFirmware ''spi'' name (parseSpiMode self mode) path], Inr ()))) \<and>
         (firmwareType self = ''bmc'' \<longrightarrow>
            dispatch env self =
              updateBmc env self (imageName self) (imageMode self) (diagImagePath self)) \<and>
         (firmwareType self = ''spi'' \<longrightarrow>
            dispatch env self =
              updateSpi env self (imageName self) (imageMode self) (diagImagePath self)) \<and>
         (\<forall>e. map snd (take 3 (stages env self)) = [Inr (), Inr (), Inr ()] \<and>
              snd (dispatch env self) = Inl e \<longrightarrow>
                fst (run env self) = concat (map fst (stages env self)) @ [Done (Some e)])"
proof (intro conjI allI impI)
  note f = constructed_fields[OF assms]
  show "dispatch env self =
          updateBmc env self (imageName self) (imageMode self) (diagImagePath self)"
    if "firmwareType self = ''bmc''"
    using that by (rule dispatch_bmc)
  show "dispatch env self =
          updateSpi env self (imageName self) (imageMode self) (diagImagePath self)"
    if "firmwareType self = ''spi''"
    using that by (rule dispatch_spi)
  show "skipReset self = JBool False" if "opt_skipReset opts = JUndefined"
    using that by (simp add: f js_or_def)
  show sk: "skipReset self = JBool False \<longleftrightarrow> \<not> truthy (opt_skipReset opts)"
    by (simp add: f js_or_False)
  have tr: "truthy (skipReset self) \<longleftrightarrow> skipReset self \<noteq> JBool False"
    using sk by (simp add: f truthy_js_or)
  show "updateBmc env self name mode path =
              (if skipReset self = JBool False
               then ([UpdateFirmware ''bmc'' name (parseBmcMode self mode) path, BmcReset False],
                     bmcReset env False)
               else ([UpdateFirmware ''bmc'' name (parseBmcMode self mode) path], Inr ()))"
    if "isIn (parseBmcMode self mode) [''0x142'', ''0x140'', ''0x144'', ''0x145'', ''0x5f''] \<and>
          updateFirmware env ''bmc'' name (parseBmcMode self mode) path = Inr body"
    using that tr by (simp add: updateBmc_valid)
  show "updateSpi env self name mode path =
              (if skipReset self = JBool False
               then ([UpdateFirmware ''spi'' name (parseSpiMode self mode) path, WarmReset False],
                     warmReset env False)
               else ([UpdateFirmware ''spi'' name (parseSpiMode self mode) path], Inr ()))"
    if "isIn (parseSpiMode self mode) [''0'', ''1'', ''2'', ''3'', ''4'', ''5''] \<and>
          updateFirmware env ''spi'' name (parseSpiMode self mode) path = Inr body \<and>
          reset_flag_expr env body = Inr (JStr reset_prompt)"
    using that tr by (simp add: updateSpi_valid)
  show "fst (run env self) = concat (map fst (stages env self)) @ [Done (Some e)]"
    if h: "map snd (take 3 (stages env self)) = [Inr (), Inr (), Inr ()] \<and>
              snd (dispatch env self) = Inl e" for e
  proof -
    let ?ps = "stages env self"
    have len: "length ?ps = 4" and last: "?ps ! 3 = dispatch env self"
      by (simp_all add: stages_def)
    have "\<forall>j<3. \<exists>u. snd (?ps ! j) = Inr u"
      using h by (auto simp: stages_def less_Suc_eq numeral_3_eq_3)
    then have "run_stages ?ps = (concat (map fst (take (Suc 3) ?ps)), Some e)"
      using run_stages_fail[of 3 ?ps e] len last h by simp
    moreover have "take (Suc 3) ?ps = ?ps" using len by simp
    ultimately show ?thesis by (simp add: run_trace)
  qed
qed


lemma constructed_examples:
  "DiagUpdateFirmware bmc_options example_context = Inr bmc_job"
  "DiagUpdateFirmware skip_options example_context = Inr skip_job"
  by (simp_all add: bmc_job_def skip_job_def DiagUpdateFirmware_def)

theorem reset_unless_skipReset_witness:
  "DiagUpdateFirmware bmc_options example_context = Inr bmc_job \<and>
   opt_skipReset bmc_options = JUndefined \<and> skipReset bmc_job = JBool False \<and>
   firmwareType bmc_job = ''bmc'' \<and>
   updateBmc reset_fail_env bmc_job ''bmc.bin'' (MStr ''ssp'') ''/uploads'' =
     ([UpdateFirmware ''bmc'' ''bmc.bin'' (ModeString ''0x142'') ''/uploads'', BmcReset False],
      Inl (Rejected ''reset failed'')) \<and>
   fst (run reset_fail_env bmc_job) =
     [NewDiagTool ''10.1.1.3'' ''node1'', RetrySyncDiscovery 5000 6, GetAllDevices,
      UploadImageFile ''http://10.1.1.1/bios.bin'' ''bmc.bin'' ''/api/upload/file'',
      UpdateFirmware ''bmc'' ''bmc.bin'' (ModeString ''0x142'') ''/uploads'', BmcReset False,
      Done (Some (Rejected ''reset failed''))] \<and>
   DiagUpdateFirmware skip_options example_context = Inr skip_job \<and>
   skipReset skip_job = JBool True \<and>
   updateSpi example_env skip_job ''bios.bin'' (MStr ''bios'') ''/uploads'' =
     ([UpdateFirmware ''spi'' ''bios.bin'' (ModeString ''1'') ''/uploads''], Inr ())"
proof -
  note b = reset_unless_skipReset[OF constructed_examples(1), where env = reset_fail_env
      and mode = "MStr ''ssp''" and name = "''bmc.bin''" and path = "''/uploads''"
      and body = good_body]
  note k = reset_unless_skipReset[OF constructed_examples(2), where env = example_env
      and mode = "MStr ''bios''" and name = "''bios.bin''" and path = "''/uploads''"
      and body = good_body]
  have o: "opt_skipReset bmc_options = JUndefined"
    by (simp add: bmc_options_def example_options_def)
  have s1: "skipReset bmc_job = JBool False" using b o by blast
  have ft: "firmwareType bmc_job = ''bmc''"
    and im: "imageName bmc_job = ''bmc.bin''" "imageMode bmc_job = MStr ''ssp''"
      "diagImagePath bmc_job = ''/uploads''"
    by (simp_all add: constructed_fields[OF constructed_examples(1)] bmc_options_def
        example_options_def)
  have pm: "parseBmcMode bmc_job (MStr ''ssp'') = ModeString ''0x142''" by code_simp
  have uf: "updateFirmware reset_fail_env ''bmc'' ''bmc.bin'' (ModeString ''0x142'') ''/uploads''
              = Inr good_body"
    and br: "bmcReset reset_fail_env False = Inl (Rejected ''reset failed'')"
    by (simp_all add: reset_fail_env_def example_env_def)
  have u: "updateBmc reset_fail_env bmc_job ''bmc.bin'' (MStr ''ssp'') ''/uploads'' =
     ([UpdateFirmware ''bmc'' ''bmc.bin'' (ModeString ''0x142'') ''/uploads'', BmcReset False],
      Inl (Rejected ''reset failed''))"
    using b s1 uf br by (simp add: pm isIn_def)
  have d: "dispatch reset_fail_env bmc_job =
     ([UpdateFirmware ''bmc'' ''bmc.bin'' (ModeString ''0x142'') ''/uploads'', BmcReset False],
      Inl (Rejected ''reset failed''))"
    using b ft u by (simp add: im)
  have t3: "take 3 (stages reset_fail_env bmc_job) =
     [([NewDiagTool ''10.1.1.3'' ''node1'', RetrySyncDiscovery 5000 6], Inr ()),
      ([GetAllDevices], Inr ()),
      ([UploadImageFile ''http://10.1.1.1/bios.bin'' ''bmc.bin'' ''/api/upload/file''], Inr ())]"
    by code_simp
  have st: "stages reset_fail_env bmc_job =
      take 3 (stages reset_fail_env bmc_job) @ [dispatch reset_fail_env bmc_job]"
    by (simp add: stages_def)
  have r: "fst (run reset_fail_env bmc_job) =
     concat (map fst (stages reset_fail_env bmc_job)) @ [Done (Some (Rejected ''reset failed''))]"
    using b d by (simp add: t3)
  have r': "fst (run reset_fail_env bmc_job) =
     [NewDiagTool ''10.1.1.3'' ''node1'', RetrySyncDiscovery 5000 6, GetAllDevices,
      UploadImageFile ''http://10.1.1.1/bios.bin'' ''bmc.bin'' ''/api/upload/file'',
      UpdateFirmware ''bmc'' ''bmc.bin'' (ModeString ''0x142'') ''/uploads'', BmcReset False,
      Done (Some (Rejected ''reset failed''))]"
    unfolding r by (subst st) (simp add: t3 d)
  have s2: "skipReset skip_job = JBool True"
    by (simp add: constructed_fields[OF constructed_examples(2)] skip_options_def js_or_def)
  have ps: "parseSpiMode skip_job (MStr ''bios'') = ModeString ''1''" by code_simp
  have us: "updateFirmware example_env ''spi'' ''bios.bin'' (ModeString ''1'') ''/uploads''
              = Inr good_body"
    by (simp add: example_env_def)
  have v: "updateSpi example_env skip_job ''bios.bin'' (MStr ''bios'') ''/uploads'' =
     ([UpdateFirmware ''spi'' ''bios.bin'' (ModeString ''1'') ''/uploads''], Inr ())"
    using k s2 us example_flags(1) by (simp add: ps isIn_def)
  show ?thesis using constructed_examples o s1 ft u r' s2 v by simp
qed


subsection \<open>The reset prompt\<close>

lemma digit_val_digit_char: "d < 10 \<Longrightarrow> digit_val (digit_char d) = Some d"
  by (simp add: digit_val_def of_char_digit_char)

lemma digits_value_snoc:
  "digits_value R (Z @ [c]) =
     digits_value R Z * R + (case digit_val c of None \<Rightarrow> 0 | Some d \<Rightarrow> d)"
  by (simp add: digits_value_def)

lemma digits_value_show_nat: "digits_value 10 (show_nat n) = n"
proof (induction n rule: show_nat.induct)
  case (1 n)
  show ?case
  proof (cases "n < 10")
    case True
    then show ?thesis
      by (subst show_nat.simps) (simp add: digits_value_def digit_val_digit_char)
  next
    case False
    then have "digits_value 10 (show_nat (n div 10)) = n div 10" using 1 by simp
    then show ?thesis
      using False
      by (subst show_nat.simps) (simp add: digits_value_snoc digit_val_digit_char)
  qed
qed

lemma show_nat_inj: "show_nat a = show_nat b \<Longrightarrow> a = b"
  by (metis digits_value_show_nat)

lemma is_dec_char_iff:
  "is_dec_char c \<longleftrightarrow> 48 \<le> (of_char c :: nat) \<and> (of_char c :: nat) \<le> 57"
proof
  assume "is_dec_char c"
  then show "48 \<le> (of_char c :: nat) \<and> (of_char c :: nat) \<le> 57"
    by (auto simp: is_dec_char_def of_char_digit_char)
next
  assume r: "48 \<le> (of_char c :: nat) \<and> (of_char c :: nat) \<le> 57"
  let ?d = "(of_char c :: nat) - 48"
  have "?d < 10" using r by arith
  moreover have "c = digit_char ?d"
    using r by (simp add: digit_char_def)
  ultimately show "is_dec_char c" unfolding is_dec_char_def by blast
qed

lemma find_index_key:
  assumes "i < n"
  shows "find (\<lambda>j. show_nat j = show_nat i) [0..<n] = Some i"
proof -
  have "\<exists>k<length [0..<n]. show_nat ([0..<n] ! k) = show_nat i \<and> i = [0..<n] ! k \<and>
          (\<forall>j<k. \<not> show_nat ([0..<n] ! j) = show_nat i)"
    using assms show_nat_inj by (intro exI[of _ i]) auto
  then show ?thesis by (simp only: find_Some_iff)
qed

lemma find_no_index:
  assumes "\<exists>c \<in> set key. \<not> is_dec_char c"
  shows "find (\<lambda>j. show_nat j = key) [0..<n] = None"
proof -
  have "show_nat j \<noteq> key" for j
    using assms show_nat_digits[of j] by auto
  then show ?thesis by (simp add: find_None_iff)
qed

lemma js_get_named:
  assumes "named_key key"
  shows "js_get v key =
           (case v of
              JUndefined \<Rightarrow> Inl TypeError
            | JNull \<Rightarrow> Inl TypeError
            | JObj kvs \<Rightarrow> Inr (case map_of kvs key of Some x \<Rightarrow> x | None \<Rightarrow> JUndefined)
            | _ \<Rightarrow> Inr JUndefined)"
  using assms find_no_index[of key]
  by (cases v) (simp_all add: named_key_def)

lemma named_keys:
  "named_key ''result''" "named_key ''atomic_test_data''"
  "named_key ''secure_firmware_update''" "named_key ''NaN''"
  "named_key ''-1''" "named_key ''-2''"
  by (simp_all add: named_key_def is_dec_char_iff)

lemma nested_accept:
  "bind_err (js_get entry ''atomic_test_data'')
      (\<lambda>a. js_get a ''secure_firmware_update'') = Inr (JStr reset_prompt)
   \<longleftrightarrow> nested_field entry = Some (JStr reset_prompt)"
proof (cases entry)
  case (JObj e)
  show ?thesis
  proof (cases "map_of e ''atomic_test_data''")
    case None
    then show ?thesis
      using JObj by (simp add: js_get_named[OF named_keys(2)] nested_field_def bind_err_def)
  next
    case (Some a)
    then show ?thesis
      using JObj
      by (cases a)
         (auto simp: js_get_named[OF named_keys(2)] js_get_named[OF named_keys(3)]
            nested_field_def bind_err_def split: option.splits)
  qed
qed (simp_all add: js_get_named[OF named_keys(2)] nested_field_def bind_err_def)


lemma bind_err_Inr: "bind_err (Inr v) f = f v"
  by (simp add: bind_err_def)

lemma show_int_not_length: "show_int k \<noteq> ''length''"
proof -
  have "\<not> is_dec_char CHR ''l''" by (simp add: is_dec_char_iff)
  moreover have "\<not> is_dec_char CHR ''e''" by (simp add: is_dec_char_iff)
  ultimately show ?thesis
    using show_nat_digits[of "nat k"] show_nat_digits[of "nat (- k)"]
    by (auto simp: show_int_def)
qed

lemma short_keys:
  assumes "n < 2"
  shows "show_int (int n - 2) = ''-1'' \<or> show_int (int n - 2) = ''-2''"
proof -
  have "n = 0 \<or> n = 1" using assms by arith
  moreover have "show_int (- 2) = ''-2''" "show_int (- 1) = ''-1''" by code_simp+
  ultimately show ?thesis by auto
qed

text \<open>The length of a JavaScript array is below \<open>2^32\<close>, where the key is exact.\<close>

lemma minus_2_key_length:
  assumes "n < 2 ^ 32"
  shows "minus_2_key env (JNum (Finite (of_nat n))) = Inr (show_int (int n - 2))"
proof -
  have f: "\<lfloor>(of_nat n :: rat)\<rfloor> = int n" by simp
  have "int n < 2 ^ 32" using assms by (metis of_nat_less_iff of_nat_numeral of_nat_power)
  then have "safe_integer (int n)" "safe_integer (int n - 2)"
    by (simp_all add: safe_integer_def)
  then show ?thesis by (simp add: f)
qed

lemma array_entry:
  assumes "length xs < 2 ^ 32"
  shows "bind_err (minus_2_key env (JNum (Finite (of_nat (length xs)))))
           (\<lambda>key. js_get (JArr xs) key) =
         Inr (if 2 \<le> length xs then xs ! (length xs - 2) else JUndefined)"
proof (cases "2 \<le> length xs")
  case True
  then have k: "show_int (int (length xs) - 2) = show_nat (length xs - 2)"
    by (simp add: show_int_def nat_diff_distrib')
  have "find (\<lambda>j. show_nat j = show_nat (length xs - 2)) [0..<length xs] = Some (length xs - 2)"
    using True by (intro find_index_key) arith
  then show ?thesis
    using True show_int_not_length[of "int (length xs) - 2"]
    unfolding minus_2_key_length[OF assms] bind_err_Inr
    by (simp add: k)
next
  case False
  then have "show_int (int (length xs) - 2) = ''-1'' \<or> show_int (int (length xs) - 2) = ''-2''"
    by (intro short_keys) arith
  then show ?thesis
    using False js_get_named[OF named_keys(5), of "JArr xs"]
      js_get_named[OF named_keys(6), of "JArr xs"]
    unfolding minus_2_key_length[OF assms] bind_err_Inr
    by auto
qed

text \<open>Whatever the key, an entry read from a string has no nested field.\<close>

lemma string_entry:
  "bind_err (bind_err k (\<lambda>key. js_get (JStr s) key))
     (\<lambda>entry. bind_err (js_get entry ''atomic_test_data'')
                (\<lambda>a. js_get a ''secure_firmware_update''))
   \<noteq> Inr (JStr reset_prompt)"
proof (cases k)
  case (Inl e)
  then show ?thesis by (simp add: bind_err_def)
next
  case (Inr key)
  obtain v where v: "js_get (JStr s) key = Inr v"
    and vt: "v = JUndefined \<or> (\<exists>t. v = JStr t) \<or> (\<exists>n. v = JNum n)"
    by (auto split: option.splits)
  have "nested_field v = None" using vt by (auto simp: nested_field_def)
  then show ?thesis
    unfolding Inr bind_err_Inr v using nested_accept[of v] by simp
qed

lemma reset_flag_expr_unfold:
  "reset_flag_expr env body =
     bind_err (js_get body ''result'') (\<lambda>result.
     bind_err (js_get result ''length'') (\<lambda>len.
     bind_err (bind_err (minus_2_key env len) (\<lambda>key. js_get result key)) (\<lambda>entry.
     bind_err (js_get entry ''atomic_test_data'') (\<lambda>a.
     js_get a ''secure_firmware_update''))))"
  by (auto simp: reset_flag_expr_def bind_err_def split: sum.splits)

lemma accept_result:
  assumes "\<forall>r. result \<noteq> JObj r" and "\<forall>xs. result = JArr xs \<longrightarrow> length xs < 2 ^ 32"
  shows "bind_err (js_get result ''length'') (\<lambda>len.
         bind_err (bind_err (minus_2_key env len) (\<lambda>key. js_get result key)) (\<lambda>entry.
         bind_err (js_get entry ''atomic_test_data'') (\<lambda>a.
         js_get a ''secure_firmware_update''))) = Inr (JStr reset_prompt)
         \<longleftrightarrow> (\<exists>xs. result = JArr xs \<and> 2 \<le> length xs \<and>
                   nested_field (xs ! (length xs - 2)) = Some (JStr reset_prompt))"
proof (cases result)
  case JUndefined
  then show ?thesis by (simp add: bind_err_def)
next
  case JNull
  then show ?thesis by (simp add: bind_err_def)
next
  case (JBool b)
  then show ?thesis
    by (simp add: bind_err_def js_get_named[OF named_keys(2)])
next
  case (JNum n)
  then show ?thesis
    by (simp add: bind_err_def js_get_named[OF named_keys(2)])
next
  case (JStr s)
  have l: "js_get (JStr s) ''length'' = Inr (JNum (Finite (of_nat (length s))))" by simp
  have ne: "bind_err (bind_err (minus_2_key env (JNum (Finite (of_nat (length s)))))
                (\<lambda>key. js_get (JStr s) key))
              (\<lambda>entry. bind_err (js_get entry ''atomic_test_data'')
                 (\<lambda>a. js_get a ''secure_firmware_update''))
            \<noteq> Inr (JStr reset_prompt)"
    by (rule string_entry)
  have rhs: "\<not> (\<exists>xs. JStr s = JArr xs \<and> 2 \<le> length xs \<and>
                   nested_field (xs ! (length xs - 2)) = Some (JStr reset_prompt))"
    by simp
  show ?thesis
    unfolding JStr l bind_err_Inr using ne rhs by blast
next
  case (JArr xs)
  have l: "js_get (JArr xs) ''length'' = Inr (JNum (Finite (of_nat (length xs))))" by simp
  have len: "length xs < 2 ^ 32" using assms(2) JArr by simp
  show ?thesis
  proof (cases "2 \<le> length xs")
    case True
    then show ?thesis
      unfolding JArr l bind_err_Inr array_entry[OF len]
      using nested_accept[of "xs ! (length xs - 2)"] by simp
  next
    case False
    then show ?thesis
      unfolding JArr l bind_err_Inr array_entry[OF len] by (simp add: bind_err_def)
  qed
next
  case (JObj r)
  then show ?thesis using assms by simp
qed

lemma accept_non_object:
  assumes "\<forall>r. js_get body ''result'' \<noteq> Inr (JObj r)"
    and "\<forall>xs. js_get body ''result'' = Inr (JArr xs) \<longrightarrow> length xs < 2 ^ 32"
  shows "reset_flag_expr env body = Inr (JStr reset_prompt) \<longleftrightarrow> spec_accepts body"
proof (cases "js_get body ''result''")
  case (Inl e)
  then have "\<not> spec_accepts body"
    by (cases body) (auto simp: js_get_named[OF named_keys(1)] spec_accepts_def)
  then show ?thesis using Inl by (simp add: reset_flag_expr_unfold bind_err_def)
next
  case (Inr result)
  then have no: "\<forall>r. result \<noteq> JObj r"
    and ar: "\<forall>xs. result = JArr xs \<longrightarrow> length xs < 2 ^ 32"
    using assms by auto
  have sp: "spec_accepts body \<longleftrightarrow> (\<exists>xs. result = JArr xs \<and> 2 \<le> length xs \<and>
                   nested_field (xs ! (length xs - 2)) = Some (JStr reset_prompt))"
    using Inr
    by (cases body)
       (auto simp: js_get_named[OF named_keys(1)] spec_accepts_def
             split: option.splits jsval.splits)
  show ?thesis
    unfolding reset_flag_expr_unfold Inr sp[symmetric, unfolded sp] 
    using accept_result[OF no ar, of env] sp
    by (simp add: bind_err_def[of "Inr result"])
qed


lemma accept_object:
  assumes "js_get body ''result'' = Inr (JObj r)"
  shows "reset_flag_expr env body = Inr (JStr reset_prompt) \<longleftrightarrow>
           (\<exists>key entry.
              minus_2_key env (case map_of r ''length'' of Some l \<Rightarrow> l | None \<Rightarrow> JUndefined)
                = Inr key \<and>
              map_of r key = Some entry \<and>
              nested_field entry = Some (JStr reset_prompt))"
proof -
  let ?len = "case map_of r ''length'' of Some l \<Rightarrow> l | None \<Rightarrow> JUndefined"
  have l: "js_get (JObj r) ''length'' = Inr ?len" by simp
  show ?thesis
  proof (cases "minus_2_key env ?len")
    case (Inl e)
    then show ?thesis
      unfolding reset_flag_expr_unfold assms bind_err_Inr l by (simp add: bind_err_def)
  next
    case (Inr key)
    show ?thesis
    proof (cases "map_of r key")
      case None
      then have "js_get (JObj r) key = Inr JUndefined" by simp
      then show ?thesis
        unfolding reset_flag_expr_unfold assms bind_err_Inr l Inr
        using None by (simp add: bind_err_def)
    next
      case (Some entry)
      then have "js_get (JObj r) key = Inr entry" by simp
      then show ?thesis
        unfolding reset_flag_expr_unfold assms bind_err_Inr l Inr
        using Some nested_accept[of entry] by (simp add: bind_err_Inr)
    qed
  qed
qed

text \<open>
  C1 (as amended). The check of the body passes exactly when the expression
  \<open>body.result[body.result.length-2].atomic_test_data.secure_firmware_update\<close>
  evaluates, without an exception, to the reset prompt; otherwise it logs the body
  with the node id and throws the one error. When \<open>body.result\<close> is not a plain
  object (an array being a JavaScript array, of fewer than \<open>2^32\<close> entries), that is
  exactly when \<open>body.result\<close> is an array whose second-to-last entry has the nested
  field equal to the prompt. When \<open>body.result\<close> is a plain object, it is exactly when
  the property of that object named by \<open>String(length - 2)\<close> is such an entry. After
  a firmware update that resolved with the body, \<open>updateSpi\<close> goes on to the reset
  step when the check passes, and otherwise is rejected with that error after the log
  line, with no warm reset.
\<close>

theorem spi_update_acceptance:
  "check_reset_flag env self body =
     (if reset_flag_expr env body = Inr (JStr reset_prompt) then ([], Inr ())
      else ([LogError reset_flag_failure
               (case reset_flag_expr env body of Inl e \<Rightarrow> Some e | Inr v \<Rightarrow> None)
               body (nodeId self)],
            Inl (Error reset_flag_failure))) \<and>
   ((\<forall>r. js_get body ''result'' \<noteq> Inr (JObj r)) \<and>
    (\<forall>xs. js_get body ''result'' = Inr (JArr xs) \<longrightarrow> length xs < 2 ^ 32) \<longrightarrow>
      (reset_flag_expr env body = Inr (JStr reset_prompt) \<longleftrightarrow> spec_accepts body)) \<and>
   (\<forall>r. js_get body ''result'' = Inr (JObj r) \<longrightarrow>
      (reset_flag_expr env body = Inr (JStr reset_prompt) \<longleftrightarrow>
         (\<exists>key entry.
            minus_2_key env (case map_of r ''length'' of Some l \<Rightarrow> l | None \<Rightarrow> JUndefined)
              = Inr key \<and>
            map_of r key = Some entry \<and>
            nested_field entry = Some (JStr reset_prompt)))) \<and>
   (isIn (parseSpiMode self mode) [''0'', ''1'', ''2'', ''3'', ''4'', ''5''] \<and>
    updateFirmware env ''spi'' name (parseSpiMode self mode) path = Inr body \<longrightarrow>
      updateSpi env self name mode path =
        (if reset_flag_expr env body = Inr (JStr reset_prompt)
         then (if truthy (skipReset self)
               then ([UpdateFirmware ''spi'' name (parseSpiMode self mode) path], Inr ())
               else ([UpdateFirmware ''spi'' name (parseSpiMode self mode) path,
                      WarmReset False],
                     warmReset env False))
         else ([UpdateFirmware ''spi'' name (parseSpiMode self mode) path,
                LogError reset_flag_failure
                  (case reset_flag_expr env body of Inl e \<Rightarrow> Some e | Inr v \<Rightarrow> None)
                  body (nodeId self)],
               Inl (Error reset_flag_failure))))"
proof (intro conjI allI impI)
  show "check_reset_flag env self body =
     (if reset_flag_expr env body = Inr (JStr reset_prompt) then ([], Inr ())
      else ([LogError reset_flag_failure
               (case reset_flag_expr env body of Inl e \<Rightarrow> Some e | Inr v \<Rightarrow> None)
               body (nodeId self)],
            Inl (Error reset_flag_failure)))"
    by (rule check_reset_flag_eq)
  show "reset_flag_expr env body = Inr (JStr reset_prompt) \<longleftrightarrow> spec_accepts body"
    if "(\<forall>r. js_get body ''result'' \<noteq> Inr (JObj r)) \<and>
        (\<forall>xs. js_get body ''result'' = Inr (JArr xs) \<longrightarrow> length xs < 2 ^ 32)"
    using that by (intro accept_non_object) simp_all
  show "reset_flag_expr env body = Inr (JStr reset_prompt) \<longleftrightarrow>
         (\<exists>key entry.
            minus_2_key env (case map_of r ''length'' of Some l \<Rightarrow> l | None \<Rightarrow> JUndefined)
              = Inr key \<and>
            map_of r key = Some entry \<and>
            nested_field entry = Some (JStr reset_prompt))"
    if "js_get body ''result'' = Inr (JObj r)" for r
    using that by (rule accept_object)
  show "updateSpi env self name mode path =
        (if reset_flag_expr env body = Inr (JStr reset_prompt)
         then (if truthy (skipReset self)
               then ([UpdateFirmware ''spi'' name (parseSpiMode self mode) path], Inr ())
               else ([UpdateFirmware ''spi'' name (parseSpiMode self mode) path,
                      WarmReset False],
                     warmReset env False))
         else ([UpdateFirmware ''spi'' name (parseSpiMode self mode) path,
                LogError reset_flag_failure
                  (case reset_flag_expr env body of Inl e \<Rightarrow> Some e | Inr v \<Rightarrow> None)
                  body (nodeId self)],
               Inl (Error reset_flag_failure)))"
    if "isIn (parseSpiMode self mode) [''0'', ''1'', ''2'', ''3'', ''4'', ''5''] \<and>
        updateFirmware env ''spi'' name (parseSpiMode self mode) path = Inr body"
    using that by (simp add: updateSpi_valid)
qed

lemma example_spec_accepts:
  "spec_accepts good_body" "\<not> spec_accepts short_body" "\<not> spec_accepts keyed_body"
  by code_simp+

lemma example_results:
  "js_get good_body ''result'' =
     Inr (JArr [JObj [(''atomic_test_data'', JObj [(''secure_firmware_update'', JStr ''progress'')])],
           JObj [(''atomic_test_data'',
                  JObj [(''secure_firmware_update'', JStr ''Issue warm reset NOW!'')])],
           JObj [(''status'', JStr ''ok'')]])"
  "js_get short_body ''result'' = Inr (JArr [JObj [(''status'', JStr ''ok'')]])"
  by code_simp+

theorem spi_update_acceptance_witness:
  "spec_accepts good_body \<and>
   check_reset_flag example_env example_job good_body = ([], Inr ()) \<and>
   updateSpi example_env example_job ''bios.bin'' (MStr ''bios'') ''/uploads'' =
     ([UpdateFirmware ''spi'' ''bios.bin'' (ModeString ''1'') ''/uploads'', WarmReset False],
      Inr ()) \<and>
   \<not> spec_accepts short_body \<and>
   updateSpi (example_env\<lparr>updateFirmware := \<lambda>kind name m path. Inr short_body\<rparr>)
       example_job ''bios.bin'' (MStr ''bios'') ''/uploads'' =
     ([UpdateFirmware ''spi'' ''bios.bin'' (ModeString ''1'') ''/uploads'',
       LogError ''Failed to get reset flags from diag'' (Some TypeError) short_body ''node1''],
      Inl (Error ''Failed to get reset flags from diag'')) \<and>
   minus_2_key example_env (JNum (Finite 3)) = Inr ''1'' \<and>
   reset_flag_expr example_env counted_body = Inr (JStr reset_prompt)"
proof -
  let ?env' = "example_env\<lparr>updateFirmware := \<lambda>kind name m path. Inr short_body\<rparr>"
  note g = spi_update_acceptance[where env = example_env and self = example_job
      and body = good_body and mode = "MStr ''bios''" and name = "''bios.bin''"
      and path = "''/uploads''"]
  note s = spi_update_acceptance[where env = ?env' and self = example_job
      and body = short_body and mode = "MStr ''bios''" and name = "''bios.bin''"
      and path = "''/uploads''"]
  have v: "isIn (parseSpiMode example_job (MStr ''bios'')) [''0'', ''1'', ''2'', ''3'', ''4'', ''5'']"
    by (simp add: example_modes isIn_def)
  have fg: "reset_flag_expr example_env good_body = Inr (JStr reset_prompt)"
    using g example_spec_accepts(1) by (simp add: example_results)
  have fs: "reset_flag_expr ?env' short_body \<noteq> Inr (JStr reset_prompt)"
    using s example_spec_accepts(2) by (simp add: example_results)
  have es: "reset_flag_expr ?env' short_body = Inl TypeError"
    using example_flags(2) reset_flag_expr_cong[of ?env' example_env] by simp
  have 1: "check_reset_flag example_env example_job good_body = ([], Inr ())"
    using g fg by simp
  have 2: "updateSpi example_env example_job ''bios.bin'' (MStr ''bios'') ''/uploads'' =
     ([UpdateFirmware ''spi'' ''bios.bin'' (ModeString ''1'') ''/uploads'', WarmReset False],
      Inr ())"
    using g v fg by (simp add: example_env_fields example_job_fields example_modes)
  have 3: "updateSpi ?env' example_job ''bios.bin'' (MStr ''bios'') ''/uploads'' =
     ([UpdateFirmware ''spi'' ''bios.bin'' (ModeString ''1'') ''/uploads'',
       LogError ''Failed to get reset flags from diag'' (Some TypeError) short_body ''node1''],
      Inl (Error ''Failed to get reset flags from diag''))"
    using s v fs
    by (simp add: es example_job_fields example_modes reset_flag_failure_def)
  have r: "js_get counted_body ''result'' =
      Inr (JObj [(''length'', JNum (Finite 3)),
                 (''1'', JObj [(''atomic_test_data'',
                    JObj [(''secure_firmware_update'', JStr ''Issue warm reset NOW!'')])])])"
    by (simp add: counted_body_def)
  have k: "minus_2_key example_env (JNum (Finite 3)) = Inr ''1''"
    using show_int_codes(2) by (simp add: safe_integer_def)
  have 4: "reset_flag_expr example_env counted_body = Inr (JStr reset_prompt)"
    using spi_update_acceptance[where env = example_env and body = counted_body] r k
    by (simp add: nested_field_def reset_prompt_def)
  show ?thesis using example_spec_accepts 1 2 3 k 4 by simp
qed

text \<open>
  Where the code leaves the wording of C1: a body whose \<open>result\<close> is not a sequence but
  an object with the key \<open>NaN\<close> has no second-to-last entry; \<open>result.length\<close> is
  \<open>undefined\<close>, \<open>undefined - 2\<close> is \<open>NaN\<close>, the entry under that key is read, and the
  update is accepted and followed by the warm reset.
\<close>

theorem keyed_result_is_accepted:
  "\<not> spec_accepts keyed_body \<and>
   js_get keyed_body ''result'' =
     Inr (JObj [(''NaN'', JObj [(''atomic_test_data'',
                  JObj [(''secure_firmware_update'', JStr ''Issue warm reset NOW!'')])])]) \<and>
   reset_flag_expr example_env keyed_body = Inr (JStr ''Issue warm reset NOW!'') \<and>
   check_reset_flag example_env example_job keyed_body = ([], Inr ()) \<and>
   updateSpi (example_env\<lparr>updateFirmware := \<lambda>kind name m path. Inr keyed_body\<rparr>)
       example_job ''bios.bin'' (MStr ''bios'') ''/uploads'' =
     ([UpdateFirmware ''spi'' ''bios.bin'' (ModeString ''1'') ''/uploads'', WarmReset False],
      Inr ())"
  by code_simp

end


